theory Spec2Isabelle
  imports Complex_Main
begin

section \<open>Face verification pipeline of \<^verbatim>\<open>verify.js\<close>\<close>

text \<open>
  The numbers of JavaScript are IEEE-754 doubles. Here a number is the real number it
  denotes. Comparison, \<^verbatim>\<open>Math.max\<close>, \<^verbatim>\<open>Math.min\<close> and \<^verbatim>\<open>Math.floor\<close> are exact on doubles:
  they are the order, \<open>max\<close>, \<open>min\<close> and \<open>floor\<close> of the reals. Every product, quotient, sum
  and difference returns the double nearest to its exact result; this rounding is written
  out as \<open>fl\<close> at each operation, and a decimal literal such as \<^verbatim>\<open>0.3\<close> is the double
  \<open>fl (3 / 10)\<close>. \<^verbatim>\<open>NaN\<close>, the infinities and the sign of zero are not modelled.
\<close>

subsection \<open>Rounding to the nearest double\<close>

text \<open>
  \<open>rne v\<close> is the integer nearest to \<open>v\<close>, the even one of the two when \<open>v\<close> lies halfway.
  A double has a significand of 53 bits: between \<open>2\<^sup>e\<close> and \<open>2\<^sup>e\<^sup>+\<^sup>1\<close> the doubles are the
  multiples of \<open>2\<^sup>e\<^sup>-\<^sup>5\<^sup>2\<close>, and below \<open>2\<^sup>-\<^sup>1\<^sup>0\<^sup>2\<^sup>2\<close> (the subnormal range) they are the multiples of
  \<open>2\<^sup>-\<^sup>1\<^sup>0\<^sup>7\<^sup>4\<close>. \<open>binade v\<close> is that exponent \<open>e\<close>, \<open>ulp v\<close> the spacing of the doubles around
  \<open>v\<close>, and \<open>fl v\<close> the double nearest to \<open>v\<close>, with ties to the even significand (the
  rounding mode of JavaScript). A result beyond the largest double, which JavaScript
  turns into \<^verbatim>\<open>Infinity\<close>, stays a finite real here. A real \<open>v\<close> is a double when
  \<open>fl v = v\<close>.
\<close>

definition rne :: "real \<Rightarrow> int" where
  "rne v =
     (if v - of_int \<lfloor>v\<rfloor> < 1 / 2 then \<lfloor>v\<rfloor>
      else if 1 / 2 < v - of_int \<lfloor>v\<rfloor> then \<lfloor>v\<rfloor> + 1
      else if even \<lfloor>v\<rfloor> then \<lfloor>v\<rfloor> else \<lfloor>v\<rfloor> + 1)"

definition binade :: "real \<Rightarrow> int" where
  "binade v = max (- 1022) \<lfloor>log 2 \<bar>v\<bar>\<rfloor>"

definition ulp :: "real \<Rightarrow> real" where
  "ulp v = 2 powr of_int (binade v - 52)"

definition fl :: "real \<Rightarrow> real" where
  "fl v = of_int (rne (v / ulp v)) * ulp v"

definition double :: "real \<Rightarrow> bool" where
  "double v \<longleftrightarrow> fl v = v"

subsection \<open>Geometry: \<^verbatim>\<open>calculateZoomedOutBox\<close>\<close>

text \<open>
  JavaScript objects are records. The fields \<^verbatim>\<open>width\<close> and \<^verbatim>\<open>height\<close> occur in three
  kinds of object (the \<^verbatim>\<open>imageDimensions\<close> of the report, a box and a decoded image), so
  they are declared once and the other two records extend that one.
\<close>

record dims =
  width :: real
  height :: real

text \<open>A box object \<^verbatim>\<open>{x, y, width, height}\<close>, as the detector returns it and as
  \<^verbatim>\<open>calculateZoomedOutBox\<close> builds it.\<close>

record box = dims +
  x :: real
  y :: real

text \<open>
  \<^verbatim>\<open>
  function calculateZoomedOutBox(box, zoomFactor, imageWidth, imageHeight) {
    const { x, y, width, height } = box;
    const zoomOutX = width * zoomFactor;
    const zoomOutY = height * zoomFactor;
    const newX = Math.max(0, x - zoomOutX / 2);
    const newY = Math.max(0, y - zoomOutY / 2);
    const newWidth = Math.min(imageWidth - newX, width + zoomOutX);
    const newHeight = Math.min(imageHeight - newY, height + zoomOutY);
    return { x: Math.floor(newX), y: Math.floor(newY),
             width: Math.floor(newWidth), height: Math.floor(newHeight) };
  }
  \<close>
  Each of the five arithmetic operations on an axis is rounded by \<open>fl\<close>.
\<close>

definition calculateZoomedOutBox :: "box \<Rightarrow> real \<Rightarrow> real \<Rightarrow> real \<Rightarrow> box" where
  "calculateZoomedOutBox b zoomFactor imageWidth imageHeight =
     (let zoomOutX = fl (width b * zoomFactor);
          zoomOutY = fl (height b * zoomFactor);
          newX = max 0 (fl (x b - fl (zoomOutX / 2)));
          newY = max 0 (fl (y b - fl (zoomOutY / 2)));
          newWidth = min (fl (imageWidth - newX)) (fl (width b + zoomOutX));
          newHeight = min (fl (imageHeight - newY)) (fl (height b + zoomOutY))
      in \<lparr> width = of_int \<lfloor>newWidth\<rfloor>, height = of_int \<lfloor>newHeight\<rfloor>,
           x = of_int \<lfloor>newX\<rfloor>, y = of_int \<lfloor>newY\<rfloor> \<rparr>)"

text \<open>
  The function computes the two axes alike. On one axis, with the origin \<open>p\<close> and the extent
  \<open>s\<close> of the box and the extent \<open>L\<close> of the image, \<open>axis_origin\<close> is \<^verbatim>\<open>newX\<close> (or \<^verbatim>\<open>newY\<close>)
  and \<open>axis_extent\<close> is \<^verbatim>\<open>newWidth\<close> (or \<^verbatim>\<open>newHeight\<close>).
\<close>

definition axis_origin :: "real \<Rightarrow> real \<Rightarrow> real \<Rightarrow> real" where
  "axis_origin p s z = max 0 (fl (p - fl (fl (s * z) / 2)))"

definition axis_extent :: "real \<Rightarrow> real \<Rightarrow> real \<Rightarrow> real \<Rightarrow> real" where
  "axis_extent p s z L = min (fl (L - axis_origin p s z)) (fl (s + fl (s * z)))"

text \<open>The BoundingBox invariant of a box \<open>b\<close> inside an image of the given size.\<close>

definition valid_box :: "box \<Rightarrow> real \<Rightarrow> real \<Rightarrow> bool" where
  "valid_box b imageWidth imageHeight \<longleftrightarrow>
     0 \<le> x b \<and> 0 \<le> y b \<and> 0 < width b \<and> 0 < height b \<and>
     x b + width b \<le> imageWidth \<and> y b + height b \<le> imageHeight"

text \<open>A box whose four coordinates are whole numbers of pixels.\<close>

definition integer_box :: "box \<Rightarrow> bool" where
  "integer_box b \<longleftrightarrow> x b \<in> \<int> \<and> y b \<in> \<int> \<and> width b \<in> \<int> \<and> height b \<in> \<int>"

text \<open>A box whose four coordinates are doubles, as the numbers of a JavaScript object are.\<close>

definition double_box :: "box \<Rightarrow> bool" where
  "double_box b \<longleftrightarrow> double (x b) \<and> double (y b) \<and> double (width b) \<and> double (height b)"

subsection \<open>Configuration\<close>

text \<open>
  The \<^verbatim>\<open>CONFIG\<close> object. The functions of \<^verbatim>\<open>verify.js\<close> read it as a global; here they
  take it as their first argument, so that a property can be stated for every
  configuration. \<open>CONFIG\<close> is the one in the file, its literals \<^verbatim>\<open>0.6\<close>, \<^verbatim>\<open>0.3\<close> and \<^verbatim>\<open>0.8\<close> the
  doubles nearest to these decimals; its \<^verbatim>\<open>baseOutputDir\<close> is only read by
  \<^verbatim>\<open>createTimestampedDirectory\<close> and is left out.
\<close>

record config =
  distanceThreshold :: real
  zoomOutFactor :: real
  faceQuality :: real

definition CONFIG :: config where
  "CONFIG =
     \<lparr> distanceThreshold = fl (6 / 10), zoomOutFactor = fl (3 / 10), faceQuality = fl (8 / 10) \<rparr>"

subsection \<open>Images, detections and the report\<close>

text \<open>A decoded image: its size and its pixels, which the pipeline never looks at.\<close>

record image = dims +
  pixels :: "nat list"

text \<open>The \<^verbatim>\<open>detection\<close> part of a face-api result: \<^verbatim>\<open>detection.detection.box\<close> and
  \<^verbatim>\<open>detection.detection.score\<close>.\<close>

record detection =
  box :: box
  score :: real

text \<open>
  What \<^verbatim>\<open>detectSingleFace(image).withFaceLandmarks().withFaceDescriptor()\<close> resolves to when
  a face is found. \<open>landmarks\<close> is \<open>None\<close> when the field is absent, and otherwise the list
  \<^verbatim>\<open>landmarks.positions\<close>.
\<close>

record face_result =
  detection :: detection
  landmarks :: "(real \<times> real) list option"
  descriptor :: "real list"

text \<open>
  The objects that describe one face share fields: \<^verbatim>\<open>coordinates\<close> and \<^verbatim>\<open>detectionScore\<close>
  are in the value returned by \<^verbatim>\<open>extractAndSaveFace\<close>, in the argument objects of
  \<^verbatim>\<open>generateVerificationReport\<close> and in the per-image sections of the report; the last two
  also share \<^verbatim>\<open>faceDetected\<close>, \<^verbatim>\<open>faceFile\<close> and \<^verbatim>\<open>imageDimensions\<close>.
\<close>

record face_info =
  coordinates :: box
  detectionScore :: real

text \<open>The value returned by \<^verbatim>\<open>extractAndSaveFace\<close>:
  \<^verbatim>\<open>{filename, path, coordinates, detectionScore}\<close>.\<close>

record face_data = face_info +
  filename :: string
  path :: string

record image_entry = face_info +
  faceDetected :: bool
  faceFile :: string
  imageDimensions :: dims

text \<open>The objects \<^verbatim>\<open>referenceData\<close> and \<^verbatim>\<open>queryData\<close> passed to
  \<^verbatim>\<open>generateVerificationReport\<close>.\<close>

record image_data = image_entry +
  imagePath :: string

text \<open>The sections \<^verbatim>\<open>referenceImage\<close> and \<^verbatim>\<open>queryImage\<close> of the report. Their field
  \<^verbatim>\<open>filename\<close> is written \<open>image_section.filename\<close>, the one of the value returned by
  \<^verbatim>\<open>extractAndSaveFace\<close> is \<open>face_data.filename\<close>.\<close>

record image_section = image_entry +
  filename :: string

text \<open>The fields \<^verbatim>\<open>isMatch\<close>, \<^verbatim>\<open>faceDistance\<close> and \<^verbatim>\<open>confidence\<close> are in the \<^verbatim>\<open>result\<close> of
  the report and in the value returned by \<^verbatim>\<open>runVerification\<close>.\<close>

record decision =
  isMatch :: bool
  faceDistance :: real
  confidence :: real

record verification_result = decision +
  threshold :: real
  status :: string

record report =
  verificationId :: string
  timestamp :: string
  result :: verification_result
  referenceImage :: image_section
  queryImage :: image_section
  outputDirectory :: string

text \<open>The value returned by \<^verbatim>\<open>runVerification\<close>.\<close>

record run_result = decision +
  referenceScore :: real
  queryScore :: real
  reportPath :: string
  referenceFace :: string
  queryFace :: string
  outputDir :: string

subsection \<open>The world outside the program\<close>

text \<open>
  Everything \<^verbatim>\<open>runVerification\<close> asks of Node, of the canvas library and of face-api:
  \<^item> \<open>existsSync\<close>: \<^verbatim>\<open>fs.existsSync\<close>;
  \<^item> \<open>loadImage\<close>: \<^verbatim>\<open>canvas.loadImage\<close>, \<open>None\<close> when the promise is rejected;
  \<^item> \<open>detectSingleFace\<close>: the detection chain of face-api, \<open>None\<close> when it resolves to
    \<^verbatim>\<open>undefined\<close> (no face);
  \<^item> \<open>faceapi_euclideanDistance\<close>: \<^verbatim>\<open>faceapi.euclideanDistance\<close>, \<open>None\<close> when it throws;
  \<^item> \<open>writable\<close>: whether encoding a file and \<^verbatim>\<open>fs.writeFileSync\<close> to that path succeed (a
    write that fails is taken to leave no file);
  \<^item> \<open>join\<close> and \<open>basename\<close>: \<^verbatim>\<open>path.join\<close> and \<^verbatim>\<open>path.basename\<close>;
  \<^item> \<open>toISOString\<close>: the text of \<^verbatim>\<open>new Date().toISOString()\<close>, and \<open>dateNow\<close>: the decimal
    text of \<^verbatim>\<open>Date.now()\<close>, both as read when the report is built.
\<close>

record env =
  existsSync :: "string \<Rightarrow> bool"
  loadImage :: "string \<Rightarrow> image option"
  detectSingleFace :: "image \<Rightarrow> face_result option"
  faceapi_euclideanDistance :: "real list \<Rightarrow> real list \<Rightarrow> real option"
  writable :: "string \<Rightarrow> bool"
  join :: "string \<Rightarrow> string \<Rightarrow> string"
  basename :: "string \<Rightarrow> string"
  toISOString :: string
  dateNow :: string

text \<open>
  The errors a run can end with. The first six are thrown by \<^verbatim>\<open>runVerification\<close>:
  \<^item> \<open>ReferenceImageNotFound p\<close>: \<^verbatim>\<open>Reference image not found: ${p}\<close>
  \<^item> \<open>QueryImageNotFound p\<close>: \<^verbatim>\<open>Query image not found: ${p}\<close>
  \<^item> \<open>NoFaceReference\<close>: \<^verbatim>\<open>Could not detect a face in the reference image\<close>
  \<^item> \<open>NoFaceQuery\<close>: \<^verbatim>\<open>Could not detect a face in the query image\<close>
  \<^item> \<open>LowScoreReference s\<close>: \<^verbatim>\<open>Low detection score in reference image: ${s}\<close>
  \<^item> \<open>LowScoreQuery s\<close>: \<^verbatim>\<open>Low detection score in query image: ${s}\<close>

  The other three come from the libraries: a rejected \<^verbatim>\<open>canvas.loadImage\<close>, an exception
  of \<^verbatim>\<open>faceapi.euclideanDistance\<close>, and a failed file write.
\<close>

datatype error =
    ReferenceImageNotFound string
  | QueryImageNotFound string
  | NoFaceReference
  | NoFaceQuery
  | LowScoreReference real
  | LowScoreQuery real
  | LoadImageFailed string
  | DistanceFailed
  | WriteFailed string

text \<open>
  What a written file holds: the crop of an image at a box (\<^verbatim>\<open>extractAndSaveFace\<close>), an
  image with its detection drawn on it (\<^verbatim>\<open>drawFaceDetection\<close>), or the JSON text of a
  report (\<^verbatim>\<open>saveVerificationReport\<close>).
\<close>

datatype file_content =
    FaceCrop image box
  | DetectionOverlay image face_result
  | ReportJson report

text \<open>What a run does to the outside world, in the order it does it.\<close>

datatype event =
    LoadImage string
  | DetectSingleFace image
  | WriteFile string file_content

text \<open>
  A step of the run yields an error or a value, and the events it performed. \<open>andThen\<close>
  runs a step and, unless it threw, the rest of the function on its value: the
  statement sequence of JavaScript, \<^verbatim>\<open>await\<close> included.
\<close>

type_synonym 'a step = "(error + 'a) \<times> event list"

definition throw :: "error \<Rightarrow> 'a step" where
  "throw e = (Inl e, [])"

definition return :: "'a \<Rightarrow> 'a step" where
  "return v = (Inr v, [])"

definition andThen :: "'a step \<Rightarrow> ('a \<Rightarrow> 'b step) \<Rightarrow> 'b step" where
  "andThen m f =
     (case m of
        (Inl e, tr) \<Rightarrow> (Inl e, tr)
      | (Inr v, tr) \<Rightarrow> (case f v of (r, tr') \<Rightarrow> (r, tr @ tr')))"

text \<open>\<^verbatim>\<open>fs.writeFileSync(p, c)\<close>.\<close>

definition writeFileSync :: "env \<Rightarrow> string \<Rightarrow> file_content \<Rightarrow> unit step" where
  "writeFileSync env p c =
     (if writable env p then (Inr (), [WriteFile p c]) else (Inl (WriteFailed p), []))"

text \<open>\<^verbatim>\<open>await canvas.loadImage(p)\<close>.\<close>

definition awaitLoadImage :: "env \<Rightarrow> string \<Rightarrow> image step" where
  "awaitLoadImage env p =
     (case loadImage env p of
        None \<Rightarrow> (Inl (LoadImageFailed p), [LoadImage p])
      | Some img \<Rightarrow> (Inr img, [LoadImage p]))"

text \<open>\<^verbatim>\<open>faceapi.euclideanDistance(a, b)\<close>.\<close>

definition callEuclideanDistance :: "env \<Rightarrow> real list \<Rightarrow> real list \<Rightarrow> real step" where
  "callEuclideanDistance env a b =
     (case faceapi_euclideanDistance env a b of
        None \<Rightarrow> (Inl DistanceFailed, [])
      | Some d \<Rightarrow> (Inr d, []))"

text \<open>\<^verbatim>\<open>await faceapi.detectSingleFace(img).withFaceLandmarks().withFaceDescriptor()\<close>.\<close>

definition awaitDetectSingleFace :: "env \<Rightarrow> image \<Rightarrow> face_result option step" where
  "awaitDetectSingleFace env img = (Inr (detectSingleFace env img), [DetectSingleFace img])"

subsection \<open>The distance of two descriptors\<close>

text \<open>
  Modelled from the spec: \<^verbatim>\<open>faceapi.euclideanDistance\<close>, a function of the face-api.js
  library, whose code is not among the sources. The specification says: the distance is
  the Euclidean (L2) distance between the two descriptor vectors; both vectors must have
  identical dimensionality, and mismatched dimensionality fails loudly.
\<close>

definition euclideanDistance :: "real list \<Rightarrow> real list \<Rightarrow> real option" where
  "euclideanDistance a b =
     (if length a \<noteq> length b then None
      else Some (sqrt (\<Sum>(p, q) \<leftarrow> zip a b. (p - q)\<^sup>2)))"

subsection \<open>The functions of \<^verbatim>\<open>verify.js\<close>\<close>

text \<open>
  \<^verbatim>\<open>
  async function extractAndSaveFace(image, detection, imageName, outputDir) {
    const imageWidth = image.width;
    const imageHeight = image.height;
    const zoomedBox = calculateZoomedOutBox(detection.detection.box, CONFIG.zoomOutFactor,
                                            imageWidth, imageHeight);
    const faceCanvas = canvas.createCanvas(zoomedBox.width, zoomedBox.height);
    const ctx = faceCanvas.getContext("2d");
    ctx.drawImage(image, zoomedBox.x, zoomedBox.y, zoomedBox.width, zoomedBox.height,
                  0, 0, zoomedBox.width, zoomedBox.height);
    const faceFilename = `face_${imageName}.jpg`;
    const facePath = path.join(outputDir, faceFilename);
    const buffer = faceCanvas.toBuffer("image/jpeg");
    fs.writeFileSync(facePath, buffer);
    return { filename: faceFilename, path: facePath, coordinates: zoomedBox,
             detectionScore: detection.detection.score };
  }
  \<close>
\<close>

definition extractAndSaveFace ::
    "config \<Rightarrow> env \<Rightarrow> image \<Rightarrow> face_result \<Rightarrow> string \<Rightarrow> string \<Rightarrow> face_data step" where
  "extractAndSaveFace cfg env img det imageName outDir =
     (let imageWidth = width img;
          imageHeight = height img;
          zoomedBox = calculateZoomedOutBox (box (detection det)) (zoomOutFactor cfg)
                        imageWidth imageHeight;
          faceFilename = ''face_'' @ imageName @ ''.jpg'';
          facePath = join env outDir faceFilename
      in andThen (writeFileSync env facePath (FaceCrop img zoomedBox)) (\<lambda>_.
         return \<lparr> coordinates = zoomedBox, detectionScore = score (detection det),
                  face_data.filename = faceFilename, path = facePath \<rparr>))"

text \<open>
  \<^verbatim>\<open>
  function generateVerificationReport(referenceData, queryData, faceDistance, isMatch,
                                      outputDir) {
    const timestamp = new Date().toISOString();
    const reportId = `verify_${Date.now()}`;
    return {
      verificationId: reportId,
      timestamp: timestamp,
      result: {
        isMatch: isMatch,
        faceDistance: faceDistance,
        threshold: CONFIG.distanceThreshold,
        confidence: Math.max(0, 1 - faceDistance / CONFIG.distanceThreshold),
        status: isMatch ? "VERIFIED" : "REJECTED",
      },
      referenceImage: {
        filename: path.basename(referenceData.imagePath),
        faceDetected: referenceData.faceDetected,
        detectionScore: referenceData.detectionScore,
        faceFile: referenceData.faceFile,
        coordinates: referenceData.coordinates,
        imageDimensions: referenceData.imageDimensions,
      },
      queryImage: { ... the same, from queryData ... },
      outputDirectory: path.basename(outputDir),
    };
  }
  \<close>
  The quotient and the difference in \<^verbatim>\<open>confidence\<close> are each rounded by \<open>fl\<close>. A variable whose name is also a field of a record carries a prime.
\<close>

definition generateVerificationReport ::
    "config \<Rightarrow> env \<Rightarrow> image_data \<Rightarrow> image_data \<Rightarrow> real \<Rightarrow> bool \<Rightarrow> string \<Rightarrow> report" where
  "generateVerificationReport cfg env referenceData queryData faceDistance' isMatch' outDir =
     (let timestamp' = toISOString env;
          reportId = ''verify_'' @ dateNow env
      in \<lparr> verificationId = reportId,
           timestamp = timestamp',
           result = \<lparr>
             isMatch = isMatch',
             faceDistance = faceDistance',
             confidence = max 0 (fl (1 - fl (faceDistance' / distanceThreshold cfg))),
             threshold = distanceThreshold cfg,
             status = (if isMatch' then ''VERIFIED'' else ''REJECTED'') \<rparr>,
           referenceImage = \<lparr>
             coordinates = coordinates referenceData,
             detectionScore = detectionScore referenceData,
             faceDetected = faceDetected referenceData,
             faceFile = faceFile referenceData,
             imageDimensions = imageDimensions referenceData,
             filename = basename env (imagePath referenceData) \<rparr>,
           queryImage = \<lparr>
             coordinates = coordinates queryData,
             detectionScore = detectionScore queryData,
             faceDetected = faceDetected queryData,
             faceFile = faceFile queryData,
             imageDimensions = imageDimensions queryData,
             filename = basename env (imagePath queryData) \<rparr>,
           outputDirectory = basename env outDir \<rparr>)"

text \<open>
  \<^verbatim>\<open>
  function saveVerificationReport(report, outputDir) {
    const reportPath = path.join(outputDir, `${report.verificationId}.json`);
    fs.writeFileSync(reportPath, JSON.stringify(report, null, 2));
    return reportPath;
  }
  \<close>
\<close>

definition saveVerificationReport :: "env \<Rightarrow> report \<Rightarrow> string \<Rightarrow> string step" where
  "saveVerificationReport env rep outDir =
     (let reportPath' = join env outDir (verificationId rep @ ''.json'')
      in andThen (writeFileSync env reportPath' (ReportJson rep)) (\<lambda>_.
         return reportPath'))"

text \<open>
  \<^verbatim>\<open>drawFaceDetection(image, detection, outputPath)\<close> draws the image, the detection box, the
  landmark positions if there are any and the score on a canvas and writes the canvas to
  \<^verbatim>\<open>outputPath\<close>. What is drawn is a function of the image and the detection.
\<close>

definition drawFaceDetection :: "env \<Rightarrow> image \<Rightarrow> face_result \<Rightarrow> string \<Rightarrow> unit step" where
  "drawFaceDetection env img det outputPath =
     writeFileSync env outputPath (DetectionOverlay img det)"

text \<open>
  \<^verbatim>\<open>runVerification(referenceImagePath, queryImagePath, outputDir)\<close>, statement by statement:
  the two existence checks, the two \<^verbatim>\<open>canvas.loadImage\<close> calls, the two detections, the two
  checks for a missing face, the two quality checks, the distance and the decision, the
  two crops, the two overlays, the report and its file, and the returned object.
\<close>

definition runVerification ::
    "config \<Rightarrow> env \<Rightarrow> string \<Rightarrow> string \<Rightarrow> string \<Rightarrow> run_result step" where
  "runVerification cfg env referenceImagePath queryImagePath outDir =
     (if \<not> existsSync env referenceImagePath then
        throw (ReferenceImageNotFound referenceImagePath)
      else if \<not> existsSync env queryImagePath then
        throw (QueryImageNotFound queryImagePath)
      else
        andThen (awaitLoadImage env referenceImagePath) (\<lambda>referenceImage'.
        andThen (awaitLoadImage env queryImagePath) (\<lambda>queryImage'.
        andThen (awaitDetectSingleFace env referenceImage') (\<lambda>referenceResult.
        andThen (awaitDetectSingleFace env queryImage') (\<lambda>queryResult.
        case referenceResult of
          None \<Rightarrow> throw NoFaceReference
        | Some referenceResult \<Rightarrow>
        (case queryResult of
          None \<Rightarrow> throw NoFaceQuery
        | Some queryResult \<Rightarrow>
        if score (detection referenceResult) < faceQuality cfg then
          throw (LowScoreReference (score (detection referenceResult)))
        else if score (detection queryResult) < faceQuality cfg then
          throw (LowScoreQuery (score (detection queryResult)))
        else
          andThen (callEuclideanDistance env (descriptor referenceResult) (descriptor queryResult))
            (\<lambda>faceDistance'.
          let isMatch' = faceDistance' < distanceThreshold cfg in
          andThen (extractAndSaveFace cfg env referenceImage' referenceResult ''reference'' outDir)
            (\<lambda>referenceFaceData.
          andThen (extractAndSaveFace cfg env queryImage' queryResult ''query'' outDir)
            (\<lambda>queryFaceData.
          andThen (drawFaceDetection env referenceImage' referenceResult
                     (join env outDir ''reference_detection.jpg'')) (\<lambda>_.
          andThen (drawFaceDetection env queryImage' queryResult
                     (join env outDir ''query_detection.jpg'')) (\<lambda>_.
          let reportData = generateVerificationReport cfg env
                \<lparr> coordinates = coordinates referenceFaceData,
                  detectionScore = score (detection referenceResult),
                  faceDetected = True,
                  faceFile = face_data.filename referenceFaceData,
                  imageDimensions = \<lparr> width = width referenceImage', height = height referenceImage' \<rparr>,
                  imagePath = referenceImagePath \<rparr>
                \<lparr> coordinates = coordinates queryFaceData,
                  detectionScore = score (detection queryResult),
                  faceDetected = True,
                  faceFile = face_data.filename queryFaceData,
                  imageDimensions = \<lparr> width = width queryImage', height = height queryImage' \<rparr>,
                  imagePath = queryImagePath \<rparr>
                faceDistance' isMatch' outDir in
          andThen (saveVerificationReport env reportData outDir) (\<lambda>reportPath'.
          return \<lparr> isMatch = isMatch',
                   faceDistance = faceDistance',
                   confidence = confidence (result reportData),
                   referenceScore = score (detection referenceResult),
                   queryScore = score (detection queryResult),
                   reportPath = reportPath',
                   referenceFace = face_data.filename referenceFaceData,
                   queryFace = face_data.filename queryFaceData,
                   outputDir = outDir \<rparr>))))))))))))"

text \<open>The report files among the events of a run: path and content, in order.\<close>

fun report_files :: "event list \<Rightarrow> (string \<times> report) list" where
  "report_files [] = []"
| "report_files (WriteFile p (ReportJson rep) # es) = (p, rep) # report_files es"
| "report_files (_ # es) = report_files es"

subsection \<open>Observations on a run\<close>

text \<open>A step that writes no report file, and a step that leaves no report file behind
  when it ends with an error.\<close>

definition writes_no_report :: "'a step \<Rightarrow> bool" where
  "writes_no_report m \<longleftrightarrow> report_files (snd m) = []"

definition fails_clean :: "'a step \<Rightarrow> bool" where
  "fails_clean m \<longleftrightarrow> (\<forall>e. fst m = Inl e \<longrightarrow> report_files (snd m) = [])"

text \<open>A step all of whose errors satisfy \<open>P\<close>.\<close>

definition raises_only :: "(error \<Rightarrow> bool) \<Rightarrow> 'a step \<Rightarrow> bool" where
  "raises_only P m \<longleftrightarrow> (\<forall>e. fst m = Inl e \<longrightarrow> P e)"

text \<open>The errors of the library calls and of the file writes.\<close>

definition library_error :: "error \<Rightarrow> bool" where
  "library_error e \<longleftrightarrow> e = DistanceFailed \<or> (\<exists>p. e = WriteFailed p) \<or> (\<exists>p. e = LoadImageFailed p)"

text \<open>The report of a run in which every stage succeeds.\<close>

definition the_report ::
    "config \<Rightarrow> env \<Rightarrow> string \<Rightarrow> string \<Rightarrow> string \<Rightarrow> image \<Rightarrow> image \<Rightarrow> face_result \<Rightarrow> face_result \<Rightarrow> real
       \<Rightarrow> report" where
  "the_report cfg env rp qp out ri qi rr qr d =
     generateVerificationReport cfg env
       \<lparr> coordinates = calculateZoomedOutBox (box (detection rr)) (zoomOutFactor cfg)
                         (width ri) (height ri),
         detectionScore = score (detection rr),
         faceDetected = True,
         faceFile = ''face_reference.jpg'',
         imageDimensions = \<lparr> width = width ri, height = height ri \<rparr>,
         imagePath = rp \<rparr>
       \<lparr> coordinates = calculateZoomedOutBox (box (detection qr)) (zoomOutFactor cfg)
                         (width qi) (height qi),
         detectionScore = score (detection qr),
         faceDetected = True,
         faceFile = ''face_query.jpg'',
         imageDimensions = \<lparr> width = width qi, height = height qi \<rparr>,
         imagePath = qp \<rparr>
       d (d < distanceThreshold cfg) out"

text \<open>
  Some gate of the pipeline fails for the reference or for the query image: the file is
  missing, the image cannot be decoded, no face is found in it, or the score of its
  detection is below \<^verbatim>\<open>CONFIG.faceQuality\<close>.
\<close>

definition gate_fails :: "config \<Rightarrow> env \<Rightarrow> string \<Rightarrow> bool" where
  "gate_fails cfg env p \<longleftrightarrow>
     \<not> existsSync env p \<or>
     (case loadImage env p of
        None \<Rightarrow> True
      | Some img \<Rightarrow>
          (case detectSingleFace env img of
             None \<Rightarrow> True
           | Some r \<Rightarrow> score (detection r) < faceQuality cfg))"

subsection \<open>A sample world\<close>

text \<open>An outside world for the examples: every image decodes to the same 100 by 100
  image, the detector returns the given result, every write succeeds.\<close>

definition sample_image :: image where
  "sample_image = \<lparr> width = 100, height = 100, pixels = [] \<rparr>"

definition sample_face :: "real \<Rightarrow> real list \<Rightarrow> face_result" where
  "sample_face s d =
     \<lparr> detection = \<lparr> box = \<lparr> width = 10, height = 10, x = 10, y = 20 \<rparr>, score = s \<rparr>,
       landmarks = None, descriptor = d \<rparr>"

definition sample_env ::
    "(string \<Rightarrow> bool) \<Rightarrow> face_result option \<Rightarrow> (real list \<Rightarrow> real list \<Rightarrow> real option) \<Rightarrow> env" where
  "sample_env ex face distance =
     \<lparr> existsSync = ex,
       loadImage = (\<lambda>p. Some sample_image),
       detectSingleFace = (\<lambda>i. face),
       faceapi_euclideanDistance = distance,
       writable = (\<lambda>p. True),
       join = (\<lambda>d f. d @ ''/'' @ f),
       basename = (\<lambda>p. p),
       toISOString = ''2024-01-15T10:30:45.123Z'',
       dateNow = ''1705311845123'' \<rparr>"

definition sample_data :: "string \<Rightarrow> string \<Rightarrow> image_data" where
  "sample_data p f =
     \<lparr> coordinates = \<lparr> width = 13, height = 13, x = 8, y = 18 \<rparr>, detectionScore = 9 / 10,
       faceDetected = True, faceFile = f,
       imageDimensions = \<lparr> width = 100, height = 100 \<rparr>, imagePath = p \<rparr>"

subsection \<open>Properties of the rounding\<close>

lemma rne_of_int: "rne (of_int n) = n"
  by (simp add: rne_def)

lemma rne_cases: "rne v = \<lfloor>v\<rfloor> \<or> rne v = \<lfloor>v\<rfloor> + 1"
  by (simp add: rne_def)

lemma rne_mono:
  assumes "a \<le> b"
  shows "rne a \<le> rne b"
proof (cases "\<lfloor>a\<rfloor> = \<lfloor>b\<rfloor>")
  case True
  with assms show ?thesis
    by (auto simp: rne_def)
next
  case False
  with assms have "\<lfloor>a\<rfloor> < \<lfloor>b\<rfloor>"
    using floor_mono [of a b] by linarith
  moreover have "rne a \<le> \<lfloor>a\<rfloor> + 1" and "\<lfloor>b\<rfloor> \<le> rne b"
    using rne_cases [of a] rne_cases [of b] by auto
  ultimately show ?thesis
    by linarith
qed

lemma rne_le_int: "v \<le> of_int n \<Longrightarrow> rne v \<le> n"
  using rne_mono [of v "of_int n"] by (simp add: rne_of_int)

lemma rne_ge_int: "of_int n \<le> v \<Longrightarrow> n \<le> rne v"
  using rne_mono [of "of_int n" v] by (simp add: rne_of_int)

lemma ulp_pos: "0 < ulp v"
  by (simp add: ulp_def)

lemma fl_nonneg: "0 \<le> v \<Longrightarrow> 0 \<le> fl v"
  using rne_ge_int [of 0 "v / ulp v"] ulp_pos [of v] by (simp add: fl_def)

lemma fl_nonpos: "v \<le> 0 \<Longrightarrow> fl v \<le> 0"
  using rne_le_int [of "v / ulp v" 0] ulp_pos [of v]
  by (simp add: fl_def divide_nonpos_pos mult_nonpos_nonneg)

lemma binade_mono:
  assumes "0 < a" "a \<le> b"
  shows "binade a \<le> binade b"
proof -
  have "log 2 a \<le> log 2 b"
    using assms by simp
  then have "\<lfloor>log 2 a\<rfloor> \<le> \<lfloor>log 2 b\<rfloor>"
    by (rule floor_mono)
  with assms show ?thesis
    by (simp add: binade_def)
qed

lemma below_next_binade:
  assumes "0 < a"
  shows "a < 2 powr of_int (binade a + 1)"
proof -
  have "\<lfloor>log 2 a\<rfloor> \<le> binade a"
    using assms by (simp add: binade_def)
  then have "log 2 a < of_int (binade a + 1)"
    by linarith
  with assms show ?thesis
    by (simp add: log_less_iff)
qed

lemma above_own_binade:
  assumes "0 < b" "- 1022 < binade b"
  shows "2 powr of_int (binade b) \<le> b"
proof -
  from assms have "binade b = \<lfloor>log 2 b\<rfloor>"
    by (simp add: binade_def max_def split: if_splits)
  then have "of_int (binade b) \<le> log 2 b"
    by simp
  with assms show ?thesis
    by (simp add: le_log_iff)
qed

lemma fl_le_next_binade:
  assumes "0 < a"
  shows "fl a \<le> 2 powr of_int (binade a + 1)"
proof -
  have "a \<le> of_int (2 ^ 53) * ulp a"
    using below_next_binade [OF assms] by (simp add: ulp_def powr_diff powr_add)
  then have "a / ulp a \<le> of_int (2 ^ 53)"
    using ulp_pos [of a] by (simp add: pos_divide_le_eq)
  then have "rne (a / ulp a) \<le> 2 ^ 53"
    by (rule rne_le_int)
  then have "real_of_int (rne (a / ulp a)) \<le> of_int (2 ^ 53)"
    by (simp only: of_int_le_iff)
  then have "fl a \<le> of_int (2 ^ 53) * ulp a"
    unfolding fl_def using ulp_pos [of a] by (simp only: mult_le_cancel_right_pos)
  then show ?thesis
    by (simp add: ulp_def powr_diff powr_add)
qed

lemma fl_ge_own_binade:
  assumes "0 < b" "- 1022 < binade b"
  shows "2 powr of_int (binade b) \<le> fl b"
proof -
  have "of_int (2 ^ 52) * ulp b \<le> b"
    using above_own_binade [OF assms] by (simp add: ulp_def powr_diff)
  then have "of_int (2 ^ 52) \<le> b / ulp b"
    using ulp_pos [of b] by (simp add: pos_le_divide_eq)
  then have "2 ^ 52 \<le> rne (b / ulp b)"
    by (rule rne_ge_int)
  then have "of_int (2 ^ 52) \<le> real_of_int (rne (b / ulp b))"
    by (simp only: of_int_le_iff)
  then have "of_int (2 ^ 52) * ulp b \<le> fl b"
    unfolding fl_def using ulp_pos [of b] by (simp only: mult_le_cancel_right_pos)
  then show ?thesis
    by (simp add: ulp_def powr_diff)
qed

lemma fl_mono_pos:
  assumes "0 < a" "a \<le> b"
  shows "fl a \<le> fl b"
proof (cases "binade a = binade b")
  case True
  then have u: "ulp a = ulp b"
    by (simp add: ulp_def)
  have "a / ulp b \<le> b / ulp b"
    using assms ulp_pos [of b] by (simp add: divide_right_mono)
  then have "rne (a / ulp b) \<le> rne (b / ulp b)"
    by (rule rne_mono)
  then have "real_of_int (rne (a / ulp b)) \<le> of_int (rne (b / ulp b))"
    by (simp only: of_int_le_iff)
  then show ?thesis
    unfolding fl_def u using ulp_pos [of b] by (simp only: mult_le_cancel_right_pos)
next
  case False
  with binade_mono [OF assms] have lt: "binade a < binade b"
    by simp
  have "- 1022 \<le> binade a"
    by (simp add: binade_def)
  with lt have b: "- 1022 < binade b" and "0 < b"
    using assms by simp_all
  have "fl a \<le> 2 powr of_int (binade a + 1)"
    using assms(1) by (rule fl_le_next_binade)
  also have "\<dots> \<le> 2 powr of_int (binade b)"
    using lt by simp
  also have "\<dots> \<le> fl b"
    using \<open>0 < b\<close> b by (rule fl_ge_own_binade)
  finally show ?thesis .
qed

lemma fl_eval:
  assumes "2 powr of_int e \<le> v" "v < 2 powr of_int (e + 1)" "- 1022 \<le> e"
  shows "fl v = of_int (rne (v / 2 powr of_int (e - 52))) * 2 powr of_int (e - 52)"
proof -
  have "0 < v"
    using assms(1) by (smt (verit) powr_gt_zero)
  then have "\<lfloor>log 2 v\<rfloor> = e"
    using assms by (simp add: floor_log_eq_powr_iff)
  with assms(3) \<open>0 < v\<close> have "binade v = e"
    by (simp add: binade_def)
  then show ?thesis
    by (simp add: fl_def ulp_def)
qed

lemma fl_zero: "fl 0 = 0"
  by (simp add: fl_def rne_def)

lemma fl_one: "fl 1 = 1"
proof -
  have "fl 1 = of_int (rne (1 / 2 powr of_int (0 - 52))) * 2 powr of_int (0 - 52)"
    by (rule fl_eval) simp_all
  also have "1 / 2 powr of_int (0 - 52) = (of_int (2 ^ 52) :: real)"
    by (simp add: powr_minus field_simps)
  also have "of_int (rne (of_int (2 ^ 52))) * 2 powr of_int (0 - 52) = (1::real)"
    unfolding rne_of_int by (simp add: powr_minus)
  finally show ?thesis .
qed

lemma rne_nearest:
  assumes "\<bar>v - of_int n\<bar> < 1 / 2"
  shows "rne v = n"
proof (cases "of_int n \<le> v")
  case True
  with assms have "\<lfloor>v\<rfloor> = n"
    by (intro floor_unique) linarith+
  with assms True show ?thesis
    by (simp add: rne_def)
next
  case False
  with assms have "\<lfloor>v\<rfloor> = n - 1"
    by (intro floor_unique) (simp, linarith)+
  with assms False show ?thesis
    by (auto simp: rne_def)
qed

lemma fl_exact:
  assumes "v = of_int m * 2 powr of_int (e - 52)" "2 ^ 52 \<le> m" "m < 2 ^ 53" "- 1022 \<le> e"
  shows "fl v = v"
proof -
  have p: "0 < (2::real) powr of_int (e - 52)"
    by simp
  have "real_of_int (2 ^ 52) \<le> of_int m" and "real_of_int m < of_int (2 ^ 53)"
    using assms(2,3) by (simp_all only: of_int_le_iff of_int_less_iff)
  then have "(2 ^ 52 :: real) \<le> of_int m" and "real_of_int m < 2 ^ 53"
    by simp_all
  then have "2 ^ 52 * 2 powr of_int (e - 52) \<le> v" and "v < 2 ^ 53 * 2 powr of_int (e - 52)"
    using p unfolding assms(1) by simp_all
  then have "2 powr of_int e \<le> v" and "v < 2 powr of_int (e + 1)"
    by (simp_all add: powr_diff powr_add)
  then have "fl v = of_int (rne (v / 2 powr of_int (e - 52))) * 2 powr of_int (e - 52)"
    using assms(4) by (rule fl_eval)
  also have "v / 2 powr of_int (e - 52) = of_int m"
    unfolding assms(1) using p by simp
  finally show ?thesis
    by (simp add: rne_of_int assms(1))
qed

lemma fl_pow53: "fl (1 / 2 ^ 53) = 1 / 2 ^ 53"
  by (rule fl_exact [where m = "2 ^ 52" and e = "- 53"]) (simp_all add: powr_minus powr_diff)

lemma fl_below_one: "fl (1 - 1 / 2 ^ 53) = 1 - 1 / 2 ^ 53"
  by (rule fl_exact [where m = "2 ^ 53 - 1" and e = "- 1"]) (simp_all add: powr_minus powr_diff)

lemma fl_pow59: "fl (1 / 2 ^ 59) = 1 / 2 ^ 59"
  by (rule fl_exact [where m = "2 ^ 52" and e = "- 59"]) (simp_all add: powr_minus powr_diff)

lemma fl_rounds_to_one: "fl (1 - 1 / 2 ^ 59) = 1"
proof -
  have "fl (1 - 1 / 2 ^ 59)
      = of_int (rne ((1 - 1 / 2 ^ 59) / 2 powr of_int (- 1 - 52))) * 2 powr of_int (- 1 - 52)"
    by (rule fl_eval) (simp_all add: powr_minus)
  also have "(1 - 1 / 2 ^ 59) / 2 powr of_int (- 1 - 52) = (2 ^ 53 - 1 / 2 ^ 6 :: real)"
    by (simp add: powr_minus)
  also have "rne (2 ^ 53 - 1 / 2 ^ 6) = 2 ^ 53"
    by (rule rne_nearest) simp
  finally show ?thesis
    by (simp add: powr_minus)
qed

lemma rne_minus: "rne (- v) = - rne v"
proof (cases "v \<in> \<int>")
  case True
  then obtain n where "v = of_int n"
    by (auto elim: Ints_cases)
  then have "rne v = n" and "rne (- v) = - n"
    using rne_of_int [of n] rne_of_int [of "- n"] by simp_all
  then show ?thesis
    by simp
next
  case False
  then have ne: "v \<noteq> of_int \<lfloor>v\<rfloor>"
    by (metis Ints_of_int)
  then have f: "\<lfloor>- v\<rfloor> = - \<lfloor>v\<rfloor> - 1"
    by (simp add: floor_minus ceiling_altdef)
  have lo: "of_int \<lfloor>v\<rfloor> < v"
    using ne of_int_floor_le [of v] by linarith
  show ?thesis
    unfolding rne_def f using lo by (auto simp: algebra_simps)
qed

lemma binade_minus: "binade (- v) = binade v"
  by (simp add: binade_def)

lemma ulp_minus: "ulp (- v) = ulp v"
  by (simp add: ulp_def binade_minus)

lemma fl_minus: "fl (- v) = - fl v"
  by (simp add: fl_def ulp_minus rne_minus)

lemma fl_mono:
  assumes "a \<le> b"
  shows "fl a \<le> fl b"
proof -
  consider "0 < a" | "a \<le> 0" "0 \<le> b" | "b < 0"
    by linarith
  then show ?thesis
  proof cases
    case 1
    then show ?thesis
      using assms by (rule fl_mono_pos)
  next
    case 2
    then have "fl a \<le> 0" and "0 \<le> fl b"
      by (simp_all add: fl_nonpos fl_nonneg)
    then show ?thesis
      by linarith
  next
    case 3
    then have "fl (- b) \<le> fl (- a)"
      using assms by (intro fl_mono_pos) simp_all
    then show ?thesis
      by (simp add: fl_minus)
  qed
qed

lemma binade_dyadic_le:
  assumes "m \<noteq> 0" "\<bar>m\<bar> < 2 ^ 53" "k \<le> 1074"
  shows "binade (of_int m / 2 ^ k) \<le> 52 - int k"
proof -
  let ?v = "real_of_int m / 2 ^ k"
  have pos: "0 < \<bar>?v\<bar>"
    using assms(1) by simp
  have "\<bar>real_of_int m\<bar> < 2 ^ 53"
    using assms(2) by (metis of_int_abs of_int_less_numeral_power_cancel_iff)
  then have "\<bar>?v\<bar> < 2 ^ 53 / 2 ^ k"
    by (simp add: divide_strict_right_mono abs_divide del: of_int_abs)
  also have "\<dots> = 2 powr (53 - real k)"
    by (simp add: powr_diff powr_realpow)
  finally have "log 2 \<bar>?v\<bar> < 53 - real k"
    using pos by (simp add: log_less_iff)
  then have "\<lfloor>log 2 \<bar>?v\<bar>\<rfloor> < 53 - int k"
    by (simp add: floor_less_iff)
  with assms(3) show ?thesis
    by (simp add: binade_def)
qed

lemma fl_dyadic:
  assumes "\<bar>m\<bar> < 2 ^ 53" "k \<le> 1074"
  shows "fl (of_int m / 2 ^ k) = of_int m / 2 ^ k"
proof (cases "m = 0")
  case True
  then show ?thesis
    by (simp add: fl_zero)
next
  case False
  let ?v = "real_of_int m / 2 ^ k"
  define j where "j = nat (52 - int k - binade ?v)"
  have j: "int j = 52 - int k - binade ?v"
    using binade_dyadic_le [OF False assms] by (simp add: j_def)
  have "ulp ?v = 2 powr (of_int (binade ?v) - 52)"
    by (simp add: ulp_def)
  also have "of_int (binade ?v) - 52 = - real k - real j"
    using j by linarith
  finally have u: "ulp ?v = 1 / (2 ^ k * 2 ^ j)"
    by (simp add: powr_diff powr_minus powr_realpow field_simps)
  have "?v / ulp ?v = of_int (m * 2 ^ j)"
    by (simp add: u)
  then have "rne (?v / ulp ?v) = m * 2 ^ j"
    by (simp only: rne_of_int)
  then show ?thesis
    by (simp add: fl_def u)
qed

lemma fl_int: "\<bar>n\<bar> < 2 ^ 53 \<Longrightarrow> fl (of_int n) = of_int n"
  using fl_dyadic [of n 0] by simp

lemma fl_le_int: "v \<le> of_int n \<Longrightarrow> \<bar>n\<bar> < 2 ^ 53 \<Longrightarrow> fl v \<le> of_int n"
  using fl_mono [of v "of_int n"] by (simp add: fl_int)


lemma fl_round:
  assumes "2 powr of_int e \<le> v" "v < 2 powr of_int (e + 1)" "- 1022 \<le> e"
    and "\<bar>v / 2 powr of_int (e - 52) - of_int n\<bar> < 1 / 2"
  shows "fl v = of_int n * 2 powr of_int (e - 52)"
  using fl_eval [OF assms(1-3)] rne_nearest [OF assms(4)] by simp

lemma fl_numeral: "numeral n < (2 ^ 53 :: int) \<Longrightarrow> fl (numeral n) = numeral n"
  using fl_int [of "numeral n"] by simp

lemma fl_numeral_half: "numeral n < (2 ^ 53 :: int) \<Longrightarrow> fl (numeral n / 2) = numeral n / 2"
  using fl_dyadic [of "numeral n" 1] by simp

lemma fl_three_tenths: "fl (3 / 10) = 5404319552844595 / 2 ^ 54"
  using fl_round [of "- 2" "3 / 10" 5404319552844595] by (simp add: powr_minus)

lemma fl_six_tenths: "fl (6 / 10) = 5404319552844595 / 2 ^ 53"
  using fl_round [of "- 1" "6 / 10" 5404319552844595] by (simp add: powr_minus)

lemma fl_eight_tenths: "fl (8 / 10) = 3602879701896397 / 2 ^ 52"
  using fl_round [of "- 1" "8 / 10" 7205759403792794] by (simp add: powr_minus)

lemma zoom_margin_10: "fl (10 * fl (3 / 10)) = 3"
  unfolding fl_three_tenths
  using fl_round [of 1 "10 * (5404319552844595 / 2 ^ 54)" 6755399441055744]
  by (simp add: powr_minus)

lemma CONFIG_values:
  "distanceThreshold CONFIG = 5404319552844595 / 2 ^ 53"
  "zoomOutFactor CONFIG = fl (3 / 10)"
  "faceQuality CONFIG = 3602879701896397 / 2 ^ 52"
  by (simp_all only: CONFIG_def config.simps fl_six_tenths fl_eight_tenths)

lemmas fl_values = fl_zero fl_one fl_numeral fl_numeral_half zoom_margin_10

subsection \<open>Properties of the geometry\<close>

lemma zoomed_x:
  "x (calculateZoomedOutBox b z W H) = of_int \<lfloor>axis_origin (x b) (width b) z\<rfloor>"
  by (simp add: calculateZoomedOutBox_def axis_origin_def Let_def)

lemma zoomed_y:
  "y (calculateZoomedOutBox b z W H) = of_int \<lfloor>axis_origin (y b) (height b) z\<rfloor>"
  by (simp add: calculateZoomedOutBox_def axis_origin_def Let_def)

lemma zoomed_width:
  "width (calculateZoomedOutBox b z W H) = of_int \<lfloor>axis_extent (x b) (width b) z W\<rfloor>"
  by (simp add: calculateZoomedOutBox_def axis_origin_def axis_extent_def Let_def)

lemma zoomed_height:
  "height (calculateZoomedOutBox b z W H) = of_int \<lfloor>axis_extent (y b) (height b) z H\<rfloor>"
  by (simp add: calculateZoomedOutBox_def axis_origin_def axis_extent_def Let_def)

lemma margin_nonneg:
  assumes "0 \<le> s" "0 \<le> z"
  shows "0 \<le> fl (s * z)" and "0 \<le> fl (fl (s * z) / 2)"
proof -
  show "0 \<le> fl (s * z)"
    using assms by (intro fl_nonneg) simp
  then show "0 \<le> fl (fl (s * z) / 2)"
    by (intro fl_nonneg) simp
qed

lemma axis_origin_nonneg: "0 \<le> axis_origin p s z"
  by (simp add: axis_origin_def)

lemma axis_origin_le:
  assumes "0 \<le> p" "0 \<le> s" "0 \<le> z"
  shows "axis_origin p s z \<le> fl p"
proof -
  have "p - fl (fl (s * z) / 2) \<le> p"
    using margin_nonneg(2) [OF assms(2,3)] by simp
  then have "fl (p - fl (fl (s * z) / 2)) \<le> fl p"
    by (rule fl_mono)
  moreover have "0 \<le> fl p"
    using assms(1) by (rule fl_nonneg)
  ultimately show ?thesis
    by (simp add: axis_origin_def)
qed

lemma axis_origin_antimono:
  assumes "0 \<le> s" "z1 \<le> z2"
  shows "axis_origin p s z2 \<le> axis_origin p s z1"
proof -
  have "s * z1 \<le> s * z2"
    using assms by (simp add: mult_left_mono)
  then have "fl (s * z1) / 2 \<le> fl (s * z2) / 2"
    by (simp add: fl_mono)
  then have "p - fl (fl (s * z2) / 2) \<le> p - fl (fl (s * z1) / 2)"
    by (simp add: fl_mono)
  then have "fl (p - fl (fl (s * z2) / 2)) \<le> fl (p - fl (fl (s * z1) / 2))"
    by (rule fl_mono)
  then show ?thesis
    unfolding axis_origin_def by (rule max.mono [OF order_refl])
qed

lemma axis_extent_mono:
  assumes "0 \<le> s" "z1 \<le> z2"
  shows "axis_extent p s z1 L \<le> axis_extent p s z2 L"
proof -
  have "L - axis_origin p s z1 \<le> L - axis_origin p s z2"
    using axis_origin_antimono [OF assms] by simp
  then have a: "fl (L - axis_origin p s z1) \<le> fl (L - axis_origin p s z2)"
    by (rule fl_mono)
  have "s * z1 \<le> s * z2"
    using assms by (simp add: mult_left_mono)
  then have "s + fl (s * z1) \<le> s + fl (s * z2)"
    by (simp add: fl_mono)
  then have b: "fl (s + fl (s * z1)) \<le> fl (s + fl (s * z2))"
    by (rule fl_mono)
  from a b show ?thesis
    unfolding axis_extent_def by (rule min.mono)
qed

lemma axis_fits:
  assumes "0 \<le> p" "0 \<le> s" "0 \<le> z" "p \<le> of_int L" "L < 2 ^ 53"
  shows "of_int \<lfloor>axis_origin p s z\<rfloor> + of_int \<lfloor>axis_extent p s z (of_int L)\<rfloor> \<le> (of_int L :: real)"
proof -
  define k where "k = \<lfloor>axis_origin p s z\<rfloor>"
  have L0: "0 \<le> L"
    using assms(1,4) by linarith
  then have LL: "\<bar>L\<bar> < 2 ^ 53"
    using assms(5) by simp
  have k0: "0 \<le> k"
    unfolding k_def using axis_origin_nonneg [of p s z] by simp
  have "axis_origin p s z \<le> fl p"
    using assms(1-3) by (rule axis_origin_le)
  also have "fl p \<le> of_int L"
    using assms(4) LL by (rule fl_le_int)
  finally have "of_int k \<le> (of_int L :: real)"
    unfolding k_def by linarith
  then have kL: "k \<le> L"
    by simp
  have "of_int L - axis_origin p s z \<le> of_int (L - k)"
    unfolding k_def by simp
  moreover have "\<bar>L - k\<bar> < 2 ^ 53"
    using k0 kL LL by linarith
  ultimately have "fl (of_int L - axis_origin p s z) \<le> of_int (L - k)"
    by (rule fl_le_int)
  then have "axis_extent p s z (of_int L) \<le> of_int (L - k)"
    by (simp add: axis_extent_def min_le_iff_disj)
  then have "\<lfloor>axis_extent p s z (of_int L)\<rfloor> \<le> L - k"
    by (simp add: floor_le_iff)
  then have "real_of_int (\<lfloor>axis_extent p s z (of_int L)\<rfloor>) \<le> of_int (L - k)"
    by (simp only: of_int_le_iff)
  then show ?thesis
    unfolding k_def by simp
qed

lemma axis_extent_ge:
  assumes "0 \<le> p" "0 \<le> s" "0 \<le> z" "p + s \<le> L" "double p" "double s"
  shows "s \<le> axis_extent p s z L"
proof -
  have "axis_origin p s z \<le> p"
    using axis_origin_le [OF assms(1-3)] assms(5) by (simp add: double_def)
  then have "s \<le> L - axis_origin p s z"
    using assms(4) by linarith
  then have "fl s \<le> fl (L - axis_origin p s z)"
    by (rule fl_mono)
  moreover have "s \<le> s + fl (s * z)"
    using margin_nonneg(1) [OF assms(2,3)] by simp
  then have "fl s \<le> fl (s + fl (s * z))"
    by (rule fl_mono)
  ultimately show ?thesis
    using assms(6) by (simp add: axis_extent_def double_def)
qed



lemma sample_crop_100:
  "calculateZoomedOutBox \<lparr> width = 10, height = 10, x = 10, y = 20 \<rparr> (fl (3 / 10)) 100 100
     = \<lparr> width = 13, height = 13, x = 8, y = 18 \<rparr>"
  by (simp add: calculateZoomedOutBox_def Let_def fl_values)

lemma sample_crop_20:
  "calculateZoomedOutBox \<lparr> width = 10, height = 10, x = 10, y = 20 \<rparr> (fl (3 / 10)) 20 100
     = \<lparr> width = 11, height = 13, x = 8, y = 18 \<rparr>"
  by (simp add: calculateZoomedOutBox_def Let_def fl_values)

lemma sample_crop_zero:
  "calculateZoomedOutBox \<lparr> width = 10, height = 10, x = 10, y = 20 \<rparr> 0 20 100
     = \<lparr> width = 10, height = 10, x = 10, y = 20 \<rparr>"
  by (simp add: calculateZoomedOutBox_def Let_def fl_values)

lemma valid_boxD:
  assumes "valid_box b W H"
  shows "0 \<le> x b" "0 \<le> y b" "0 < width b" "0 < height b" "0 \<le> width b" "0 \<le> height b"
    "x b + width b \<le> W" "y b + height b \<le> H" "x b \<le> W" "y b \<le> H"
  using assms by (simp_all add: valid_box_def)

lemma huge_origin: "axis_origin (7 / 2) (2 ^ 55 - 4) (1 / 2 ^ 53) = 3 / 2 + 1 / 2 ^ 52"
proof -
  have a: "(2 ^ 55 - 4) * (1 / 2 ^ 53) = (of_int (2 ^ 53 - 1) / 2 ^ 51 :: real)"
    by simp
  have b: "of_int (2 ^ 53 - 1) / 2 ^ 51 / 2 = (of_int (2 ^ 53 - 1) / 2 ^ 52 :: real)"
    by simp
  have c: "7 / 2 - of_int (2 ^ 53 - 1) / 2 ^ 52 = (of_int (3 * 2 ^ 51 + 1) / 2 ^ 52 :: real)"
    by simp
  have "fl ((2 ^ 55 - 4) * (1 / 2 ^ 53)) = of_int (2 ^ 53 - 1) / 2 ^ 51"
    unfolding a by (rule fl_dyadic) simp_all
  moreover have "fl (of_int (2 ^ 53 - 1) / 2 ^ 51 / 2) = of_int (2 ^ 53 - 1) / 2 ^ 52"
    unfolding b by (rule fl_dyadic) simp_all
  moreover have "fl (7 / 2 - of_int (2 ^ 53 - 1) / 2 ^ 52) = of_int (3 * 2 ^ 51 + 1) / 2 ^ 52"
    unfolding c by (rule fl_dyadic) simp_all
  ultimately have "axis_origin (7 / 2) (2 ^ 55 - 4) (1 / 2 ^ 53) = max 0 (of_int (3 * 2 ^ 51 + 1) / 2 ^ 52)"
    unfolding axis_origin_def by (simp only:)
  then show ?thesis
    by simp
qed

lemma huge_extent: "axis_extent (7 / 2) (2 ^ 55 - 4) (1 / 2 ^ 53) (2 ^ 55) = 2 ^ 55"
proof -
  have a: "(2 ^ 55 - 4) * (1 / 2 ^ 53) = (of_int (2 ^ 53 - 1) / 2 ^ 51 :: real)"
    by simp
  have m: "fl ((2 ^ 55 - 4) * (1 / 2 ^ 53)) = of_int (2 ^ 53 - 1) / 2 ^ 51"
    unfolding a by (rule fl_dyadic) simp_all
  have l: "fl (2 ^ 55 - (3 / 2 + 1 / 2 ^ 52)) = 2 ^ 55"
    using fl_round [of 54 "2 ^ 55 - (3 / 2 + 1 / 2 ^ 52)" "2 ^ 53"] by simp
  have r: "fl (2 ^ 55 - 4 + of_int (2 ^ 53 - 1) / 2 ^ 51) = 2 ^ 55"
    using fl_round [of 54 "2 ^ 55 - 4 + of_int (2 ^ 53 - 1) / 2 ^ 51" "2 ^ 53"] by simp
  show ?thesis
    unfolding axis_extent_def huge_origin m l r by simp
qed

text \<open>
  Claim C3 says that for a box satisfying the BoundingBox invariant, a zoom factor \<open>\<ge> 0\<close>
  and positive integer image dimensions, the returned box has integer coordinates and lies
  inside the image. It does for images of any real size, but not for every positive
  integer: where the doubles are more than one apart, \<^verbatim>\<open>imageWidth - newX\<close> can round up to
  \<^verbatim>\<open>imageWidth\<close> although \<^verbatim>\<open>newX\<close> is not below 1. In an image \<open>2\<^sup>5\<^sup>5\<close> wide, the box with
  \<open>x = 3.5\<close> and \<open>width = 2\<^sup>5\<^sup>5 - 4\<close>, zoomed by \<open>2\<^sup>-\<^sup>5\<^sup>3\<close>, comes back with \<open>x = 1\<close> and
  \<open>width = 2\<^sup>5\<^sup>5\<close>.
\<close>

theorem zoomed_box_huge_image_counterexample:
  "valid_box \<lparr> width = 2 ^ 55 - 4, height = 1, x = 7 / 2, y = 0 \<rparr>
     (of_int (2 ^ 55)) (of_int 1) \<and>
   (0::int) < 2 ^ 55 \<and> (0::int) < 1 \<and> (0::real) \<le> 1 / 2 ^ 53 \<and>
   x (calculateZoomedOutBox \<lparr> width = 2 ^ 55 - 4, height = 1, x = 7 / 2, y = 0 \<rparr>
        (1 / 2 ^ 53) (of_int (2 ^ 55)) (of_int 1)) = 1 \<and>
   width (calculateZoomedOutBox \<lparr> width = 2 ^ 55 - 4, height = 1, x = 7 / 2, y = 0 \<rparr>
        (1 / 2 ^ 53) (of_int (2 ^ 55)) (of_int 1)) = 2 ^ 55 \<and>
   \<not> (x (calculateZoomedOutBox \<lparr> width = 2 ^ 55 - 4, height = 1, x = 7 / 2, y = 0 \<rparr>
           (1 / 2 ^ 53) (of_int (2 ^ 55)) (of_int 1)) +
      width (calculateZoomedOutBox \<lparr> width = 2 ^ 55 - 4, height = 1, x = 7 / 2, y = 0 \<rparr>
           (1 / 2 ^ 53) (of_int (2 ^ 55)) (of_int 1))
        \<le> of_int (2 ^ 55))"
proof -
  define b :: box where "b = \<lparr> width = 2 ^ 55 - 4, height = 1, x = 7 / 2, y = 0 \<rparr>"
  have c: "x b = 7 / 2" "width b = 2 ^ 55 - 4"
    by (simp_all add: b_def)
  have v: "valid_box b (of_int (2 ^ 55)) (of_int 1)"
    by (simp add: valid_box_def b_def)
  have w: "(of_int (2 ^ 55) :: real) = 2 ^ 55"
    by simp
  have f1: "\<lfloor>3 / 2 + 1 / 2 ^ 52 :: real\<rfloor> = 1"
    by (rule floor_unique) simp_all
  have f2: "\<lfloor>2 ^ 55 :: real\<rfloor> = 2 ^ 55"
    by (rule floor_unique) simp_all
  have xr: "x (calculateZoomedOutBox b (1 / 2 ^ 53) (of_int (2 ^ 55)) (of_int 1)) = 1"
    unfolding zoomed_x c huge_origin f1 by simp
  have wr: "width (calculateZoomedOutBox b (1 / 2 ^ 53) (of_int (2 ^ 55)) (of_int 1)) = 2 ^ 55"
    unfolding zoomed_width c w huge_extent f2 by simp
  show ?thesis
    unfolding b_def [symmetric] xr wr using v by simp
qed

text \<open>
  Claim C3, amended. For a box satisfying the BoundingBox invariant, a zoom factor \<open>\<ge> 0\<close>
  and positive integer image dimensions below \<open>2\<^sup>5\<^sup>3\<close>, the box returned by
  \<^verbatim>\<open>calculateZoomedOutBox\<close> has integer coordinates and lies inside the image: \<open>x \<ge> 0\<close>,
  \<open>y \<ge> 0\<close>, \<open>x + width \<le> imageWidth\<close> and \<open>y + height \<le> imageHeight\<close>.
\<close>

theorem zoomed_box_within_image:
  assumes "valid_box b (of_int W) (of_int H)" and "0 < W" and "0 < H"
    and "W < 2 ^ 53" and "H < 2 ^ 53" and "0 \<le> zoomFactor"
  shows "integer_box (calculateZoomedOutBox b zoomFactor (of_int W) (of_int H)) \<and>
         0 \<le> x (calculateZoomedOutBox b zoomFactor (of_int W) (of_int H)) \<and>
         0 \<le> y (calculateZoomedOutBox b zoomFactor (of_int W) (of_int H)) \<and>
         x (calculateZoomedOutBox b zoomFactor (of_int W) (of_int H)) +
           width (calculateZoomedOutBox b zoomFactor (of_int W) (of_int H)) \<le> of_int W \<and>
         y (calculateZoomedOutBox b zoomFactor (of_int W) (of_int H)) +
           height (calculateZoomedOutBox b zoomFactor (of_int W) (of_int H)) \<le> of_int H"
proof -
  note v = valid_boxD [OF assms(1)]
  have i: "integer_box (calculateZoomedOutBox b zoomFactor (of_int W) (of_int H))"
    by (simp add: integer_box_def calculateZoomedOutBox_def Let_def)
  have ox: "0 \<le> x (calculateZoomedOutBox b zoomFactor (of_int W) (of_int H))"
    unfolding zoomed_x using axis_origin_nonneg [of "x b" "width b" zoomFactor] by simp
  have oy: "0 \<le> y (calculateZoomedOutBox b zoomFactor (of_int W) (of_int H))"
    unfolding zoomed_y using axis_origin_nonneg [of "y b" "height b" zoomFactor] by simp
  have fx: "x (calculateZoomedOutBox b zoomFactor (of_int W) (of_int H)) +
      width (calculateZoomedOutBox b zoomFactor (of_int W) (of_int H)) \<le> of_int W"
    unfolding zoomed_x zoomed_width
    using v(1) v(5) assms(6) v(9) assms(4) by (rule axis_fits)
  have fy: "y (calculateZoomedOutBox b zoomFactor (of_int W) (of_int H)) +
      height (calculateZoomedOutBox b zoomFactor (of_int W) (of_int H)) \<le> of_int H"
    unfolding zoomed_y zoomed_height
    using v(2) v(6) assms(6) v(10) assms(5) by (rule axis_fits)
  from i ox oy fx fy show ?thesis
    by simp
qed

theorem zoomed_box_within_image_witness:
  "valid_box \<lparr> width = 10, height = 10, x = 10, y = 20 \<rparr> (of_int 20) (of_int 100) \<and>
   (0::int) < 20 \<and> (0::int) < 100 \<and> (20::int) < 2 ^ 53 \<and> (100::int) < 2 ^ 53 \<and>
   (0::real) \<le> fl (3 / 10) \<and>
   calculateZoomedOutBox \<lparr> width = 10, height = 10, x = 10, y = 20 \<rparr> (fl (3 / 10))
       (of_int 20) (of_int 100)
     = \<lparr> width = 11, height = 13, x = 8, y = 18 \<rparr> \<and>
   x (calculateZoomedOutBox \<lparr> width = 10, height = 10, x = 10, y = 20 \<rparr> (fl (3 / 10))
        (of_int 20) (of_int 100)) +
   width (calculateZoomedOutBox \<lparr> width = 10, height = 10, x = 10, y = 20 \<rparr> (fl (3 / 10))
        (of_int 20) (of_int 100))
     \<le> of_int 20"
proof -
  have v: "valid_box \<lparr> width = 10, height = 10, x = 10, y = 20 \<rparr> (of_int 20) (of_int 100)"
    by (simp add: valid_box_def)
  have z: "(0::real) \<le> fl (3 / 10)"
    by (intro fl_nonneg) simp
  have e: "calculateZoomedOutBox \<lparr> width = 10, height = 10, x = 10, y = 20 \<rparr> (fl (3 / 10))
       (of_int 20) (of_int 100) = \<lparr> width = 11, height = 13, x = 8, y = 18 \<rparr>"
    using sample_crop_20 by simp
  from zoomed_box_within_image [OF v _ _ _ _ z] v z e show ?thesis
    by simp
qed

lemma sample_box_double: "double_box \<lparr> width = 10, height = 10, x = 10, y = 20 \<rparr>"
  by (simp add: double_box_def double_def fl_numeral)

text \<open>
  Claim C10. For a box satisfying the BoundingBox invariant with integer coordinates and a
  zoom factor \<open>\<ge> 0\<close>, the width and height returned by \<^verbatim>\<open>calculateZoomedOutBox\<close> are at
  least the width and height of the original box, so the returned rectangle has positive
  size. The coordinates of the box are doubles, as the numbers of a JavaScript object
  are (every integer below \<open>2\<^sup>5\<^sup>3\<close> in magnitude is one, by \<open>fl_int\<close>).
\<close>

theorem zoomed_box_not_smaller:
  assumes "valid_box b imageWidth imageHeight" and "integer_box b" and "double_box b"
    and "0 \<le> zoomFactor"
  shows "width b \<le> width (calculateZoomedOutBox b zoomFactor imageWidth imageHeight) \<and>
         height b \<le> height (calculateZoomedOutBox b zoomFactor imageWidth imageHeight) \<and>
         0 < width (calculateZoomedOutBox b zoomFactor imageWidth imageHeight) \<and>
         0 < height (calculateZoomedOutBox b zoomFactor imageWidth imageHeight)"
proof -
  note v = valid_boxD [OF assms(1)]
  from assms(2) obtain w h :: int where w: "width b = of_int w" and h: "height b = of_int h"
    unfolding integer_box_def by (auto elim!: Ints_cases)
  from assms(3) have d: "double (x b)" "double (y b)" "double (width b)" "double (height b)"
    by (simp_all add: double_box_def)
  have "width b \<le> axis_extent (x b) (width b) zoomFactor imageWidth"
    using v(1) v(5) assms(4) v(7) d(1) d(3) by (rule axis_extent_ge)
  then have "w \<le> \<lfloor>axis_extent (x b) (width b) zoomFactor imageWidth\<rfloor>"
    unfolding w by (simp only: le_floor_iff)
  then have W: "width b \<le> width (calculateZoomedOutBox b zoomFactor imageWidth imageHeight)"
    unfolding zoomed_width by (simp only: w of_int_le_iff)
  have "height b \<le> axis_extent (y b) (height b) zoomFactor imageHeight"
    using v(2) v(6) assms(4) v(8) d(2) d(4) by (rule axis_extent_ge)
  then have "h \<le> \<lfloor>axis_extent (y b) (height b) zoomFactor imageHeight\<rfloor>"
    unfolding h by (simp only: le_floor_iff)
  then have H: "height b \<le> height (calculateZoomedOutBox b zoomFactor imageWidth imageHeight)"
    unfolding zoomed_height by (simp only: h of_int_le_iff)
  from W H v(3,4) show ?thesis
    by linarith
qed

theorem zoomed_box_not_smaller_witness:
  "valid_box \<lparr> width = 10, height = 10, x = 10, y = 20 \<rparr> 20 100 \<and>
   integer_box \<lparr> width = 10, height = 10, x = 10, y = 20 \<rparr> \<and>
   double_box \<lparr> width = 10, height = 10, x = 10, y = 20 \<rparr> \<and> (0::real) \<le> fl (3 / 10) \<and>
   calculateZoomedOutBox \<lparr> width = 10, height = 10, x = 10, y = 20 \<rparr> (fl (3 / 10)) 20 100
     = \<lparr> width = 11, height = 13, x = 8, y = 18 \<rparr> \<and>
   width \<lparr> width = 10, height = 10, x = 10, y = 20 \<rparr>
     \<le> width (calculateZoomedOutBox \<lparr> width = 10, height = 10, x = 10, y = 20 \<rparr> (fl (3 / 10)) 20 100) \<and>
   height \<lparr> width = 10, height = 10, x = 10, y = 20 \<rparr>
     \<le> height (calculateZoomedOutBox \<lparr> width = 10, height = 10, x = 10, y = 20 \<rparr> (fl (3 / 10)) 20 100)"
proof -
  have v: "valid_box \<lparr> width = 10, height = 10, x = 10, y = 20 \<rparr> 20 100"
    by (simp add: valid_box_def)
  have i: "integer_box \<lparr> width = 10, height = 10, x = 10, y = 20 \<rparr>"
    by (simp add: integer_box_def)
  have z: "(0::real) \<le> fl (3 / 10)"
    by (intro fl_nonneg) simp
  from zoomed_box_not_smaller [OF v i sample_box_double z] v i sample_box_double z sample_crop_20
  show ?thesis
    by simp
qed

text \<open>
  Claim C6. For a box satisfying the BoundingBox invariant, fixed image dimensions and two
  zoom factors \<open>0 \<le> z1 \<le> z2\<close>, the width and height returned at \<open>z2\<close> are at least those
  returned at \<open>z1\<close>.
\<close>

theorem zoomed_box_monotone:
  assumes "valid_box b imageWidth imageHeight" and "0 \<le> z1" and "z1 \<le> z2"
  shows "width (calculateZoomedOutBox b z1 imageWidth imageHeight)
           \<le> width (calculateZoomedOutBox b z2 imageWidth imageHeight) \<and>
         height (calculateZoomedOutBox b z1 imageWidth imageHeight)
           \<le> height (calculateZoomedOutBox b z2 imageWidth imageHeight)"
proof -
  note v = valid_boxD [OF assms(1)]
  show ?thesis
    unfolding zoomed_width zoomed_height
    by (intro conjI iffD2 [OF of_int_le_iff] floor_mono axis_extent_mono v(5) v(6) assms(3))
qed

theorem zoomed_box_monotone_witness:
  "valid_box \<lparr> width = 10, height = 10, x = 10, y = 20 \<rparr> 20 100 \<and>
   (0::real) \<le> 0 \<and> (0::real) \<le> fl (3 / 10) \<and>
   calculateZoomedOutBox \<lparr> width = 10, height = 10, x = 10, y = 20 \<rparr> 0 20 100
     = \<lparr> width = 10, height = 10, x = 10, y = 20 \<rparr> \<and>
   calculateZoomedOutBox \<lparr> width = 10, height = 10, x = 10, y = 20 \<rparr> (fl (3 / 10)) 20 100
     = \<lparr> width = 11, height = 13, x = 8, y = 18 \<rparr> \<and>
   width (calculateZoomedOutBox \<lparr> width = 10, height = 10, x = 10, y = 20 \<rparr> 0 20 100)
     \<le> width (calculateZoomedOutBox \<lparr> width = 10, height = 10, x = 10, y = 20 \<rparr> (fl (3 / 10)) 20 100) \<and>
   height (calculateZoomedOutBox \<lparr> width = 10, height = 10, x = 10, y = 20 \<rparr> 0 20 100)
     \<le> height (calculateZoomedOutBox \<lparr> width = 10, height = 10, x = 10, y = 20 \<rparr> (fl (3 / 10)) 20 100)"
proof -
  have v: "valid_box \<lparr> width = 10, height = 10, x = 10, y = 20 \<rparr> 20 100"
    by (simp add: valid_box_def)
  have z1: "(0::real) \<le> 0"
    by simp
  have z2: "(0::real) \<le> fl (3 / 10)"
    by (intro fl_nonneg) simp
  from zoomed_box_monotone [OF v z1 z2] v z2 sample_crop_zero sample_crop_20 show ?thesis
    by simp
qed




subsection \<open>Steps and their events\<close>

lemma report_files_append: "report_files (es @ fs) = report_files es @ report_files fs"
  by (induction es rule: report_files.induct) simp_all

lemma andThen_Inr_iff:
  "andThen m f = (Inr v, tr) \<longleftrightarrow>
     (\<exists>u t1 t2. m = (Inr u, t1) \<and> f u = (Inr v, t2) \<and> tr = t1 @ t2)"
  by (auto simp: andThen_def split: prod.splits sum.splits)

lemma writeFileSync_Inr_iff:
  "writeFileSync env p c = (Inr u, tr) \<longleftrightarrow> writable env p \<and> tr = [WriteFile p c]"
  by (auto simp: writeFileSync_def)

lemma awaitLoadImage_Inr_iff:
  "awaitLoadImage env p = (Inr img, tr) \<longleftrightarrow> loadImage env p = Some img \<and> tr = [LoadImage p]"
  by (auto simp: awaitLoadImage_def split: option.splits)

lemma awaitDetectSingleFace_Inr_iff:
  "awaitDetectSingleFace env img = (Inr r, tr) \<longleftrightarrow>
     r = detectSingleFace env img \<and> tr = [DetectSingleFace img]"
  by (auto simp: awaitDetectSingleFace_def)

lemma callEuclideanDistance_Inr_iff:
  "callEuclideanDistance env a b = (Inr d, tr) \<longleftrightarrow>
     faceapi_euclideanDistance env a b = Some d \<and> tr = []"
  by (auto simp: callEuclideanDistance_def split: option.splits)

lemma return_Inr_iff: "return v = (Inr u, tr) \<longleftrightarrow> u = v \<and> tr = []"
  by (auto simp: return_def)

lemma throw_Inr_iff: "throw e = (Inr u, tr) \<longleftrightarrow> False"
  by (simp add: throw_def)

lemma if_throw_Inr_iff:
  "(if c then throw e else m) = (Inr v, tr) \<longleftrightarrow> \<not> c \<and> m = (Inr v, tr)"
  by (simp add: throw_def)

lemma case_throw_Inr_iff:
  "(case opt of None \<Rightarrow> throw e | Some u \<Rightarrow> g u) = (Inr v, tr) \<longleftrightarrow>
     (\<exists>u. opt = Some u \<and> g u = (Inr v, tr))"
  by (cases opt) (simp_all add: throw_def)

lemmas step_Inr_iffs = if_throw_Inr_iff case_throw_Inr_iff andThen_Inr_iff writeFileSync_Inr_iff
  awaitLoadImage_Inr_iff awaitDetectSingleFace_Inr_iff callEuclideanDistance_Inr_iff
  return_Inr_iff throw_Inr_iff

lemma extractAndSaveFace_Inr_iff:
  "extractAndSaveFace cfg env img det imageName outDir = (Inr d, tr) \<longleftrightarrow>
     writable env (join env outDir (''face_'' @ imageName @ ''.jpg'')) \<and>
     d = \<lparr> coordinates = calculateZoomedOutBox (box (detection det)) (zoomOutFactor cfg)
                             (width img) (height img),
           detectionScore = score (detection det),
           face_data.filename = ''face_'' @ imageName @ ''.jpg'',
           path = join env outDir (''face_'' @ imageName @ ''.jpg'') \<rparr> \<and>
     tr = [WriteFile (join env outDir (''face_'' @ imageName @ ''.jpg''))
             (FaceCrop img (calculateZoomedOutBox (box (detection det)) (zoomOutFactor cfg)
                             (width img) (height img)))]"
  by (auto simp: extractAndSaveFace_def Let_def step_Inr_iffs)

lemma saveVerificationReport_Inr_iff:
  "saveVerificationReport env rep outDir = (Inr p, tr) \<longleftrightarrow>
     writable env (join env outDir (verificationId rep @ ''.json'')) \<and>
     p = join env outDir (verificationId rep @ ''.json'') \<and>
     tr = [WriteFile (join env outDir (verificationId rep @ ''.json'')) (ReportJson rep)]"
  by (auto simp: saveVerificationReport_def Let_def step_Inr_iffs)

subsection \<open>Runs that fail and runs that succeed\<close>

lemma fails_clean_andThen:
  assumes "writes_no_report m" and "\<And>u. fails_clean (f u)"
  shows "fails_clean (andThen m f)"
proof (cases m)
  case (Pair r tr)
  show ?thesis
  proof (cases r)
    case (Inl e)
    with Pair assms(1) show ?thesis
      by (simp add: fails_clean_def writes_no_report_def andThen_def)
  next
    case (Inr v)
    with Pair assms(1) assms(2) [of v] show ?thesis
      by (auto simp: fails_clean_def writes_no_report_def andThen_def report_files_append
            split: prod.splits)
  qed
qed

lemma fails_clean_throw: "fails_clean (throw e)"
  by (simp add: fails_clean_def throw_def)

lemma fails_clean_save:
  "fails_clean (andThen (saveVerificationReport env rep outDir) (\<lambda>p. return (g p)))"
  by (simp add: fails_clean_def saveVerificationReport_def writeFileSync_def andThen_def
        return_def Let_def)

lemma writes_no_report_load: "writes_no_report (awaitLoadImage env p)"
  by (simp add: writes_no_report_def awaitLoadImage_def split: option.splits)

lemma writes_no_report_detect: "writes_no_report (awaitDetectSingleFace env img)"
  by (simp add: writes_no_report_def awaitDetectSingleFace_def)

lemma writes_no_report_distance: "writes_no_report (callEuclideanDistance env a b)"
  by (simp add: writes_no_report_def callEuclideanDistance_def split: option.splits)

lemma writes_no_report_extract:
  "writes_no_report (extractAndSaveFace cfg env img det imageName outDir)"
  by (simp add: writes_no_report_def extractAndSaveFace_def writeFileSync_def andThen_def
        return_def Let_def)

lemma writes_no_report_draw: "writes_no_report (drawFaceDetection env img det p)"
  by (simp add: writes_no_report_def drawFaceDetection_def writeFileSync_def)

lemmas quiet_steps = writes_no_report_load writes_no_report_detect writes_no_report_distance
  writes_no_report_extract writes_no_report_draw

lemma runVerification_fails_clean: "fails_clean (runVerification cfg env rp qp out)"
  unfolding runVerification_def Let_def
  by (auto intro!: fails_clean_andThen fails_clean_throw fails_clean_save quiet_steps
        split: option.splits)

lemma run_failure_no_report:
  assumes "runVerification cfg env rp qp out = (Inl e, tr)"
  shows "report_files tr = []"
  using assms runVerification_fails_clean [of cfg env rp qp out]
  by (simp add: fails_clean_def)

lemma run_success:
  assumes "runVerification cfg env rp qp out = (Inr v, tr)"
  shows "\<exists>ri qi rr qr d.
           existsSync env rp \<and> existsSync env qp \<and>
           loadImage env rp = Some ri \<and> loadImage env qp = Some qi \<and>
           detectSingleFace env ri = Some rr \<and> detectSingleFace env qi = Some qr \<and>
           \<not> score (detection rr) < faceQuality cfg \<and>
           \<not> score (detection qr) < faceQuality cfg \<and>
           faceapi_euclideanDistance env (descriptor rr) (descriptor qr) = Some d \<and>
           report_files tr = [(reportPath v, the_report cfg env rp qp out ri qi rr qr d)] \<and>
           isMatch v = (d < distanceThreshold cfg) \<and> faceDistance v = d \<and>
           confidence v = confidence (result (the_report cfg env rp qp out ri qi rr qr d)) \<and>
           referenceFace v = ''face_reference.jpg'' \<and> queryFace v = ''face_query.jpg''"
  using assms
  by (clarsimp simp: runVerification_def drawFaceDetection_def Let_def step_Inr_iffs extractAndSaveFace_Inr_iff saveVerificationReport_Inr_iff the_report_def
        report_files_append)

lemma raises_only_andThen:
  assumes "raises_only P m" and "\<And>u. raises_only P (f u)"
  shows "raises_only P (andThen m f)"
proof (cases m)
  case (Pair r tr)
  show ?thesis
  proof (cases r)
    case (Inl e)
    with Pair assms(1) show ?thesis
      by (simp add: raises_only_def andThen_def)
  next
    case (Inr v)
    with Pair assms(2) [of v] show ?thesis
      by (auto simp: raises_only_def andThen_def split: prod.splits)
  qed
qed

lemma raises_only_return: "raises_only P (return v)"
  by (simp add: raises_only_def return_def)

lemma raises_only_write: "raises_only library_error (writeFileSync env p c)"
  by (simp add: raises_only_def writeFileSync_def library_error_def)

lemma raises_only_distance: "raises_only library_error (callEuclideanDistance env a b)"
  by (simp add: raises_only_def callEuclideanDistance_def library_error_def split: option.splits)

lemma raises_only_extract:
  "raises_only library_error (extractAndSaveFace cfg env img det imageName outDir)"
  unfolding extractAndSaveFace_def Let_def
  by (intro raises_only_andThen raises_only_write raises_only_return)

lemma raises_only_draw: "raises_only library_error (drawFaceDetection env img det p)"
  unfolding drawFaceDetection_def by (rule raises_only_write)

lemma raises_only_save: "raises_only library_error (saveVerificationReport env rep outDir)"
  unfolding saveVerificationReport_def Let_def
  by (intro raises_only_andThen raises_only_write raises_only_return)

lemmas library_steps = raises_only_distance raises_only_extract raises_only_draw
  raises_only_save raises_only_return

text \<open>The run once both files exist, both images are decoded and both faces are found.\<close>

lemma run_after_detection:
  assumes "existsSync env rp" "existsSync env qp"
    and "loadImage env rp = Some ri" "loadImage env qp = Some qi"
    and "detectSingleFace env ri = Some rr" "detectSingleFace env qi = Some qr"
  shows "\<exists>rest. raises_only library_error rest \<and>
           fst (runVerification cfg env rp qp out) =
             (if score (detection rr) < faceQuality cfg then
                Inl (LowScoreReference (score (detection rr)))
              else if score (detection qr) < faceQuality cfg then
                Inl (LowScoreQuery (score (detection qr)))
              else fst rest)"
proof -
  let ?rest = "andThen (callEuclideanDistance env (descriptor rr) (descriptor qr))
            (\<lambda>faceDistance'.
          let isMatch' = faceDistance' < distanceThreshold cfg in
          andThen (extractAndSaveFace cfg env ri rr ''reference'' out)
            (\<lambda>referenceFaceData.
          andThen (extractAndSaveFace cfg env qi qr ''query'' out)
            (\<lambda>queryFaceData.
          andThen (drawFaceDetection env ri rr
                     (join env out ''reference_detection.jpg'')) (\<lambda>_.
          andThen (drawFaceDetection env qi qr
                     (join env out ''query_detection.jpg'')) (\<lambda>_.
          let reportData = generateVerificationReport cfg env
                \<lparr> coordinates = coordinates referenceFaceData,
                  detectionScore = score (detection rr),
                  faceDetected = True,
                  faceFile = face_data.filename referenceFaceData,
                  imageDimensions = \<lparr> width = width ri, height = height ri \<rparr>,
                  imagePath = rp \<rparr>
                \<lparr> coordinates = coordinates queryFaceData,
                  detectionScore = score (detection qr),
                  faceDetected = True,
                  faceFile = face_data.filename queryFaceData,
                  imageDimensions = \<lparr> width = width qi, height = height qi \<rparr>,
                  imagePath = qp \<rparr>
                faceDistance' isMatch' out in
          andThen (saveVerificationReport env reportData out) (\<lambda>reportPath'.
          return \<lparr> isMatch = isMatch',
                   faceDistance = faceDistance',
                   confidence = confidence (result reportData),
                   referenceScore = score (detection rr),
                   queryScore = score (detection qr),
                   reportPath = reportPath',
                   referenceFace = face_data.filename referenceFaceData,
                   queryFace = face_data.filename queryFaceData,
                   outputDir = out \<rparr>))))))"
  have "raises_only library_error ?rest"
    unfolding Let_def by (intro raises_only_andThen library_steps)
  moreover have "fst (runVerification cfg env rp qp out) =
             (if score (detection rr) < faceQuality cfg then
                Inl (LowScoreReference (score (detection rr)))
              else if score (detection qr) < faceQuality cfg then
                Inl (LowScoreQuery (score (detection qr)))
              else fst ?rest)"
    using assms
    by (simp add: runVerification_def awaitLoadImage_def awaitDetectSingleFace_def andThen_def
          throw_def split: prod.splits)
  ultimately show ?thesis
    by blast
qed

subsection \<open>Evaluating a run\<close>

lemmas sample_defs = sample_env_def sample_face_def sample_image_def CONFIG_values

lemmas run_defs = runVerification_def callEuclideanDistance_def andThen_def throw_def
  return_def awaitLoadImage_def awaitDetectSingleFace_def extractAndSaveFace_def
  drawFaceDetection_def saveVerificationReport_def writeFileSync_def
  generateVerificationReport_def Let_def

lemma generated_sections:
  "faceDetected (referenceImage (generateVerificationReport cfg env rd qd d m out)) = faceDetected rd"
  "faceDetected (queryImage (generateVerificationReport cfg env rd qd d m out)) = faceDetected qd"
  "faceFile (referenceImage (generateVerificationReport cfg env rd qd d m out)) = faceFile rd"
  "faceFile (queryImage (generateVerificationReport cfg env rd qd d m out)) = faceFile qd"
  by (simp_all add: generateVerificationReport_def Let_def)

lemma generated_result:
  "isMatch (result (generateVerificationReport cfg env rd qd d m out)) = m"
  "faceDistance (result (generateVerificationReport cfg env rd qd d m out)) = d"
  "threshold (result (generateVerificationReport cfg env rd qd d m out)) = distanceThreshold cfg"
  "confidence (result (generateVerificationReport cfg env rd qd d m out))
     = max 0 (fl (1 - fl (d / distanceThreshold cfg)))"
  "status (result (generateVerificationReport cfg env rd qd d m out))
     = (if m then ''VERIFIED'' else ''REJECTED'')"
  by (simp_all add: generateVerificationReport_def Let_def)

lemma gate_passes:
  assumes "existsSync env p" "loadImage env p = Some img" "detectSingleFace env img = Some r"
    and "\<not> score (detection r) < faceQuality cfg"
  shows "\<not> gate_fails cfg env p"
  using assms by (simp add: gate_fails_def)

subsection \<open>Properties of the pipeline\<close>

text \<open>
  Claim C7. If the query image path does not exist, \<^verbatim>\<open>runVerification\<close> fails with an
  input-not-found error that names the offending path, before any image is decoded and
  before any detection: the run has no event at all (no \<open>LoadImage\<close>, in particular not of
  the reference image, no \<open>DetectSingleFace\<close>, no \<open>WriteFile\<close>), so no report is produced.
  The reference path is checked first, so when it is missing as well the error names it;
  otherwise the error names the query path.
\<close>

theorem missing_query_fails_first:
  assumes "\<not> existsSync env queryImagePath"
  shows "runVerification cfg env referenceImagePath queryImagePath outDir =
           (Inl (if existsSync env referenceImagePath then QueryImageNotFound queryImagePath
                 else ReferenceImageNotFound referenceImagePath), [])"
  using assms by (simp add: runVerification_def throw_def)

theorem missing_query_fails_first_witness:
  "\<not> existsSync (sample_env (\<lambda>p. p = ''a.jpg'') None (\<lambda>a b. None)) ''b.jpg'' \<and>
   runVerification CONFIG (sample_env (\<lambda>p. p = ''a.jpg'') None (\<lambda>a b. None))
       ''a.jpg'' ''b.jpg'' ''out''
     = (Inl (QueryImageNotFound ''b.jpg''), [])"
proof -
  have m: "\<not> existsSync (sample_env (\<lambda>p. p = ''a.jpg'') None (\<lambda>a b. None)) ''b.jpg''"
    by (simp add: sample_env_def)
  have r: "existsSync (sample_env (\<lambda>p. p = ''a.jpg'') None (\<lambda>a b. None)) ''a.jpg''"
    by (simp add: sample_env_def)
  from missing_query_fails_first [OF m, of CONFIG "''a.jpg''" "''out''"] m r show ?thesis
    by simp
qed

text \<open>
  Claim C9 says that the low-detection-score error is raised if and only if the score is
  strictly less than \<^verbatim>\<open>CONFIG.faceQuality\<close>, for each of the reference and query images. The
  reference score is checked first: with both scores \<^verbatim>\<open>0.65\<close> the query score is below the
  minimum, and the error raised is the one of the reference image, not the one of the
  query image.
\<close>

theorem quality_gate_query_counterexample:
  "existsSync (sample_env (\<lambda>p. True) (Some (sample_face (65 / 100) [])) (\<lambda>a b. Some (1 / 2))) ''a.jpg'' \<and>
   existsSync (sample_env (\<lambda>p. True) (Some (sample_face (65 / 100) [])) (\<lambda>a b. Some (1 / 2))) ''b.jpg'' \<and>
   loadImage (sample_env (\<lambda>p. True) (Some (sample_face (65 / 100) [])) (\<lambda>a b. Some (1 / 2))) ''b.jpg''
     = Some sample_image \<and>
   detectSingleFace (sample_env (\<lambda>p. True) (Some (sample_face (65 / 100) [])) (\<lambda>a b. Some (1 / 2)))
       sample_image
     = Some (sample_face (65 / 100) []) \<and>
   score (detection (sample_face (65 / 100) [])) < faceQuality CONFIG \<and>
   fst (runVerification CONFIG
          (sample_env (\<lambda>p. True) (Some (sample_face (65 / 100) [])) (\<lambda>a b. Some (1 / 2)))
          ''a.jpg'' ''b.jpg'' ''out'') = Inl (LowScoreReference (65 / 100)) \<and>
   fst (runVerification CONFIG
          (sample_env (\<lambda>p. True) (Some (sample_face (65 / 100) [])) (\<lambda>a b. Some (1 / 2)))
          ''a.jpg'' ''b.jpg'' ''out'') \<noteq> Inl (LowScoreQuery (65 / 100))"
  by (simp add: run_defs sample_defs)

text \<open>
  Claim C9, amended. Once both files exist, both images are decoded and a face is found in
  both, the low-detection-score error of the reference image is raised if and only if its
  score is strictly less than \<^verbatim>\<open>CONFIG.faceQuality\<close>; the one of the query image is raised if
  and only if the reference score is not below the minimum and the query score is strictly
  less than it; and some low-detection-score error is raised if and only if one of the two
  scores is strictly less. A score exactly equal to \<^verbatim>\<open>CONFIG.faceQuality\<close> passes the gate.
\<close>

theorem quality_gate_is_strict:
  assumes "existsSync env rp" "existsSync env qp"
    and "loadImage env rp = Some ri" "loadImage env qp = Some qi"
    and "detectSingleFace env ri = Some rr" "detectSingleFace env qi = Some qr"
  shows "(fst (runVerification cfg env rp qp out) = Inl (LowScoreReference (score (detection rr)))
            \<longleftrightarrow> score (detection rr) < faceQuality cfg) \<and>
         (fst (runVerification cfg env rp qp out) = Inl (LowScoreQuery (score (detection qr)))
            \<longleftrightarrow> \<not> score (detection rr) < faceQuality cfg \<and>
                score (detection qr) < faceQuality cfg) \<and>
         ((\<exists>s. fst (runVerification cfg env rp qp out) = Inl (LowScoreReference s) \<or>
               fst (runVerification cfg env rp qp out) = Inl (LowScoreQuery s))
            \<longleftrightarrow> score (detection rr) < faceQuality cfg \<or>
                score (detection qr) < faceQuality cfg)"
proof -
  from run_after_detection [OF assms, of cfg out]
  obtain rest where rest: "raises_only library_error rest"
    and run: "fst (runVerification cfg env rp qp out) =
             (if score (detection rr) < faceQuality cfg then
                Inl (LowScoreReference (score (detection rr)))
              else if score (detection qr) < faceQuality cfg then
                Inl (LowScoreQuery (score (detection qr)))
              else fst rest)"
    by blast
  have no_low: "fst rest \<noteq> Inl (LowScoreReference s)" "fst rest \<noteq> Inl (LowScoreQuery s)" for s
    using rest by (auto simp: raises_only_def library_error_def)
  show ?thesis
    unfolding run using no_low by auto
qed

theorem quality_gate_is_strict_witness:
  "existsSync (sample_env (\<lambda>p. True) (Some (sample_face (faceQuality CONFIG) []))
       (\<lambda>a b. Some (1 / 2))) ''a.jpg'' \<and>
   loadImage (sample_env (\<lambda>p. True) (Some (sample_face (faceQuality CONFIG) []))
       (\<lambda>a b. Some (1 / 2))) ''a.jpg''
     = Some sample_image \<and>
   detectSingleFace (sample_env (\<lambda>p. True) (Some (sample_face (faceQuality CONFIG) []))
       (\<lambda>a b. Some (1 / 2))) sample_image
     = Some (sample_face (faceQuality CONFIG) []) \<and>
   score (detection (sample_face (faceQuality CONFIG) [])) = faceQuality CONFIG \<and>
   fst (runVerification CONFIG
          (sample_env (\<lambda>p. True) (Some (sample_face (faceQuality CONFIG) [])) (\<lambda>a b. Some (1 / 2)))
          ''a.jpg'' ''b.jpg'' ''out'') \<noteq> Inl (LowScoreReference (faceQuality CONFIG)) \<and>
   fst (runVerification CONFIG
          (sample_env (\<lambda>p. True) (Some (sample_face (faceQuality CONFIG) [])) (\<lambda>a b. Some (1 / 2)))
          ''a.jpg'' ''b.jpg'' ''out'') \<noteq> Inl (LowScoreQuery (faceQuality CONFIG))"
proof -
  let ?env = "sample_env (\<lambda>p. True) (Some (sample_face (faceQuality CONFIG) []))
      (\<lambda>a b. Some (1 / 2))"
  have e: "existsSync ?env ''a.jpg''" "existsSync ?env ''b.jpg''"
    by (simp_all add: sample_env_def)
  have l: "loadImage ?env ''a.jpg'' = Some sample_image"
      "loadImage ?env ''b.jpg'' = Some sample_image"
    by (simp_all add: sample_env_def)
  have d: "detectSingleFace ?env sample_image = Some (sample_face (faceQuality CONFIG) [])"
    by (simp add: sample_env_def)
  have s: "score (detection (sample_face (faceQuality CONFIG) [])) = faceQuality CONFIG"
    by (simp add: sample_face_def)
  from quality_gate_is_strict [OF e l d d, of CONFIG "''out''"] e l d s show ?thesis
    by simp
qed

text \<open>
  Claim C4. When a gate fails for the reference or the query image (the file is missing,
  the image cannot be decoded, no face is detected, or the detection score is below the
  configured minimum), the run ends with an error; a run that ends with an error, whatever
  the stage, has written no report file; a run that returns has written exactly one; and a
  report file is written only when every gate has passed for both images, and then both
  \<^verbatim>\<open>faceDetected\<close> fields of the report are true and both crop filenames are non-empty.
\<close>

theorem no_partial_report:
  assumes "runVerification cfg env rp qp out = (res, tr)"
  shows "(gate_fails cfg env rp \<or> gate_fails cfg env qp \<longrightarrow> (\<exists>e. res = Inl e)) \<and>
         ((\<exists>e. res = Inl e) \<longrightarrow> report_files tr = []) \<and>
         (\<forall>v. res = Inr v \<longrightarrow> (\<exists>rep. report_files tr = [(reportPath v, rep)])) \<and>
         (\<forall>p rep. (p, rep) \<in> set (report_files tr) \<longrightarrow>
            \<not> gate_fails cfg env rp \<and> \<not> gate_fails cfg env qp \<and>
            (\<exists>v. res = Inr v \<and> reportPath v = p) \<and>
            report_files tr = [(p, rep)] \<and>
            faceDetected (referenceImage rep) \<and> faceDetected (queryImage rep) \<and>
            faceFile (referenceImage rep) \<noteq> [] \<and> faceFile (queryImage rep) \<noteq> [])"
proof (cases res)
  case (Inl e)
  with assms have "report_files tr = []"
    by (simp add: run_failure_no_report)
  with Inl show ?thesis
    by simp
next
  case (Inr v)
  with assms have "runVerification cfg env rp qp out = (Inr v, tr)"
    by simp
  from run_success [OF this] obtain ri qi rr qr d where
    s: "existsSync env rp" "existsSync env qp"
       "loadImage env rp = Some ri" "loadImage env qp = Some qi"
       "detectSingleFace env ri = Some rr" "detectSingleFace env qi = Some qr"
       "\<not> score (detection rr) < faceQuality cfg" "\<not> score (detection qr) < faceQuality cfg"
    and f: "report_files tr = [(reportPath v, the_report cfg env rp qp out ri qi rr qr d)]"
    by blast
  have g: "\<not> gate_fails cfg env rp" "\<not> gate_fails cfg env qp"
    using s by (simp_all add: gate_passes)
  have rep: "faceDetected (referenceImage (the_report cfg env rp qp out ri qi rr qr d))"
      "faceDetected (queryImage (the_report cfg env rp qp out ri qi rr qr d))"
      "faceFile (referenceImage (the_report cfg env rp qp out ri qi rr qr d)) \<noteq> []"
      "faceFile (queryImage (the_report cfg env rp qp out ri qi rr qr d)) \<noteq> []"
    by (simp_all add: the_report_def generated_sections)
  from Inr g f rep show ?thesis
    by simp
qed

theorem no_partial_report_witness:
  "(\<exists>v rep. runVerification CONFIG
        (sample_env (\<lambda>p. True) (Some (sample_face (9 / 10) [])) (\<lambda>a b. Some (1 / 2)))
        ''a.jpg'' ''b.jpg'' ''out''
      = (Inr v, [LoadImage ''a.jpg'', LoadImage ''b.jpg'',
                 DetectSingleFace sample_image, DetectSingleFace sample_image,
                 WriteFile ''out/face_reference.jpg''
                   (FaceCrop sample_image \<lparr> width = 13, height = 13, x = 8, y = 18 \<rparr>),
                 WriteFile ''out/face_query.jpg''
                   (FaceCrop sample_image \<lparr> width = 13, height = 13, x = 8, y = 18 \<rparr>),
                 WriteFile ''out/reference_detection.jpg''
                   (DetectionOverlay sample_image (sample_face (9 / 10) [])),
                 WriteFile ''out/query_detection.jpg''
                   (DetectionOverlay sample_image (sample_face (9 / 10) [])),
                 WriteFile ''out/verify_1705311845123.json'' (ReportJson rep)]) \<and>
      faceDetected (referenceImage rep) \<and> faceDetected (queryImage rep) \<and>
      faceFile (referenceImage rep) \<noteq> [] \<and> faceFile (queryImage rep) \<noteq> []) \<and>
   gate_fails CONFIG
     (sample_env (\<lambda>p. True) (Some (sample_face (65 / 100) [])) (\<lambda>a b. Some (1 / 2))) ''a.jpg'' \<and>
   runVerification CONFIG
        (sample_env (\<lambda>p. True) (Some (sample_face (65 / 100) [])) (\<lambda>a b. Some (1 / 2)))
        ''a.jpg'' ''b.jpg'' ''out''
      = (Inl (LowScoreReference (65 / 100)),
         [LoadImage ''a.jpg'', LoadImage ''b.jpg'',
          DetectSingleFace sample_image, DetectSingleFace sample_image])"
proof -
  let ?good = "sample_env (\<lambda>p. True) (Some (sample_face (9 / 10) [])) (\<lambda>a b. Some (1 / 2))"
  let ?bad = "sample_env (\<lambda>p. True) (Some (sample_face (65 / 100) [])) (\<lambda>a b. Some (1 / 2))"
  obtain res tr where run: "runVerification CONFIG ?good ''a.jpg'' ''b.jpg'' ''out'' = (res, tr)"
    by (cases "runVerification CONFIG ?good ''a.jpg'' ''b.jpg'' ''out''")
  have tr: "\<exists>v rep. res = Inr v \<and> tr = [LoadImage ''a.jpg'', LoadImage ''b.jpg'',
                 DetectSingleFace sample_image, DetectSingleFace sample_image,
                 WriteFile ''out/face_reference.jpg''
                   (FaceCrop sample_image \<lparr> width = 13, height = 13, x = 8, y = 18 \<rparr>),
                 WriteFile ''out/face_query.jpg''
                   (FaceCrop sample_image \<lparr> width = 13, height = 13, x = 8, y = 18 \<rparr>),
                 WriteFile ''out/reference_detection.jpg''
                   (DetectionOverlay sample_image (sample_face (9 / 10) [])),
                 WriteFile ''out/query_detection.jpg''
                   (DetectionOverlay sample_image (sample_face (9 / 10) [])),
                 WriteFile ''out/verify_1705311845123.json'' (ReportJson rep)]"
    using run by (auto simp: run_defs sample_defs sample_crop_100)
  then obtain v rep where v: "res = Inr v" and tr': "tr = [LoadImage ''a.jpg'', LoadImage ''b.jpg'',
                 DetectSingleFace sample_image, DetectSingleFace sample_image,
                 WriteFile ''out/face_reference.jpg''
                   (FaceCrop sample_image \<lparr> width = 13, height = 13, x = 8, y = 18 \<rparr>),
                 WriteFile ''out/face_query.jpg''
                   (FaceCrop sample_image \<lparr> width = 13, height = 13, x = 8, y = 18 \<rparr>),
                 WriteFile ''out/reference_detection.jpg''
                   (DetectionOverlay sample_image (sample_face (9 / 10) [])),
                 WriteFile ''out/query_detection.jpg''
                   (DetectionOverlay sample_image (sample_face (9 / 10) [])),
                 WriteFile ''out/verify_1705311845123.json'' (ReportJson rep)]"
    by blast
  have mem: "(''out/verify_1705311845123.json'', rep) \<in> set (report_files tr)"
    by (simp add: tr')
  from no_partial_report [OF run] mem
  have good: "faceDetected (referenceImage rep) \<and> faceDetected (queryImage rep) \<and>
      faceFile (referenceImage rep) \<noteq> [] \<and> faceFile (queryImage rep) \<noteq> []"
    by blast
  have bad: "gate_fails CONFIG ?bad ''a.jpg''"
    by (simp add: gate_fails_def sample_defs)
  have bad_run: "runVerification CONFIG ?bad ''a.jpg'' ''b.jpg'' ''out''
      = (Inl (LowScoreReference (65 / 100)),
         [LoadImage ''a.jpg'', LoadImage ''b.jpg'',
          DetectSingleFace sample_image, DetectSingleFace sample_image])"
    by (simp add: run_defs sample_defs)
  from run v tr' good bad bad_run show ?thesis
    by simp
qed


text \<open>
  Claim C1. A run that returns has decoded both images, found a face in each and obtained
  the distance \<open>d\<close> of the two descriptors, reference first, from
  \<^verbatim>\<open>faceapi.euclideanDistance\<close>. Its report carries that \<open>d\<close> as \<^verbatim>\<open>faceDistance\<close> and the
  configured threshold as \<^verbatim>\<open>threshold\<close>; \<^verbatim>\<open>isMatch\<close> is \<open>d < threshold\<close>, with strict
  inequality, so a distance equal to the threshold gives \<^verbatim>\<open>isMatch = false\<close>; \<^verbatim>\<open>status\<close> is
  \<^verbatim>\<open>"VERIFIED"\<close> when \<^verbatim>\<open>isMatch\<close> is true and \<^verbatim>\<open>"REJECTED"\<close> otherwise; and the returned object
  carries the same \<^verbatim>\<open>isMatch\<close> and \<^verbatim>\<open>faceDistance\<close>.
\<close>

theorem decision_is_strict_threshold:
  assumes "runVerification cfg env rp qp out = (Inr v, tr)"
  shows "\<exists>ri qi rr qr d rep.
           loadImage env rp = Some ri \<and> loadImage env qp = Some qi \<and>
           detectSingleFace env ri = Some rr \<and> detectSingleFace env qi = Some qr \<and>
           faceapi_euclideanDistance env (descriptor rr) (descriptor qr) = Some d \<and>
           report_files tr = [(reportPath v, rep)] \<and>
           faceDistance (result rep) = d \<and>
           threshold (result rep) = distanceThreshold cfg \<and>
           isMatch (result rep) = (d < distanceThreshold cfg) \<and>
           (d = distanceThreshold cfg \<longrightarrow> \<not> isMatch (result rep)) \<and>
           status (result rep) = (if isMatch (result rep) then ''VERIFIED'' else ''REJECTED'') \<and>
           isMatch v = isMatch (result rep) \<and> faceDistance v = d"
proof -
  from run_success [OF assms] obtain ri qi rr qr d where
    s: "loadImage env rp = Some ri" "loadImage env qp = Some qi"
       "detectSingleFace env ri = Some rr" "detectSingleFace env qi = Some qr"
       "faceapi_euclideanDistance env (descriptor rr) (descriptor qr) = Some d"
    and f: "report_files tr = [(reportPath v, the_report cfg env rp qp out ri qi rr qr d)]"
    and v: "isMatch v = (d < distanceThreshold cfg)" "faceDistance v = d"
    by blast
  let ?rep = "the_report cfg env rp qp out ri qi rr qr d"
  have r: "isMatch (result ?rep) = (d < distanceThreshold cfg)"
      "faceDistance (result ?rep) = d"
      "threshold (result ?rep) = distanceThreshold cfg"
      "status (result ?rep) = (if d < distanceThreshold cfg then ''VERIFIED'' else ''REJECTED'')"
    by (simp_all add: the_report_def generated_result)
  show ?thesis
    by (rule exI [of _ ri], rule exI [of _ qi], rule exI [of _ rr], rule exI [of _ qr],
        rule exI [of _ d], rule exI [of _ ?rep], simp only: s f v r, simp)
qed

theorem decision_is_strict_threshold_witness:
  "(\<exists>v tr rep.
     runVerification CONFIG
        (sample_env (\<lambda>p. True) (Some (sample_face (9 / 10) [])) (\<lambda>a b. Some (1 / 2)))
        ''a.jpg'' ''b.jpg'' ''out'' = (Inr v, tr) \<and>
     report_files tr = [(''out/verify_1705311845123.json'', rep)] \<and>
     faceDistance (result rep) = 1 / 2 \<and> faceDistance (result rep) < distanceThreshold CONFIG \<and>
     isMatch (result rep) \<and> status (result rep) = ''VERIFIED'' \<and> isMatch v) \<and>
   (\<exists>v tr rep.
     runVerification CONFIG
        (sample_env (\<lambda>p. True) (Some (sample_face (9 / 10) []))
           (\<lambda>a b. Some (distanceThreshold CONFIG)))
        ''a.jpg'' ''b.jpg'' ''out'' = (Inr v, tr) \<and>
     report_files tr = [(''out/verify_1705311845123.json'', rep)] \<and>
     faceDistance (result rep) = distanceThreshold CONFIG \<and>
     \<not> isMatch (result rep) \<and> status (result rep) = ''REJECTED'' \<and> \<not> isMatch v)"
proof -
  let ?near = "sample_env (\<lambda>p. True) (Some (sample_face (9 / 10) [])) (\<lambda>a b. Some (1 / 2))"
  let ?edge = "sample_env (\<lambda>p. True) (Some (sample_face (9 / 10) []))
      (\<lambda>a b. Some (distanceThreshold CONFIG))"
  have t: "1 / 2 < distanceThreshold CONFIG"
    by (simp add: CONFIG_values)
  obtain res1 tr1 where run1: "runVerification CONFIG ?near ''a.jpg'' ''b.jpg'' ''out'' = (res1, tr1)"
    by (cases "runVerification CONFIG ?near ''a.jpg'' ''b.jpg'' ''out''")
  have "\<exists>v. res1 = Inr v \<and> reportPath v = ''out/verify_1705311845123.json''"
    using run1 by (auto simp: run_defs sample_defs)
  then obtain v1 where v1: "res1 = Inr v1" "reportPath v1 = ''out/verify_1705311845123.json''"
    by blast
  have d1: "faceapi_euclideanDistance ?near a b = Some (1 / 2)" for a b
    by (simp add: sample_env_def)
  from decision_is_strict_threshold [of CONFIG ?near "''a.jpg''" "''b.jpg''" "''out''" v1 tr1]
    run1 v1 d1 t
  have near: "\<exists>rep. report_files tr1 = [(''out/verify_1705311845123.json'', rep)] \<and>
      faceDistance (result rep) = 1 / 2 \<and> faceDistance (result rep) < distanceThreshold CONFIG \<and>
      isMatch (result rep) \<and> status (result rep) = ''VERIFIED'' \<and> isMatch v1"
    by auto
  obtain res2 tr2 where run2: "runVerification CONFIG ?edge ''a.jpg'' ''b.jpg'' ''out'' = (res2, tr2)"
    by (cases "runVerification CONFIG ?edge ''a.jpg'' ''b.jpg'' ''out''")
  have "\<exists>v. res2 = Inr v \<and> reportPath v = ''out/verify_1705311845123.json''"
    using run2 by (auto simp: run_defs sample_defs)
  then obtain v2 where v2: "res2 = Inr v2" "reportPath v2 = ''out/verify_1705311845123.json''"
    by blast
  have d2: "faceapi_euclideanDistance ?edge a b = Some (distanceThreshold CONFIG)" for a b
    by (simp add: sample_env_def)
  from decision_is_strict_threshold [of CONFIG ?edge "''a.jpg''" "''b.jpg''" "''out''" v2 tr2]
    run2 v2 d2
  have edge: "\<exists>rep. report_files tr2 = [(''out/verify_1705311845123.json'', rep)] \<and>
      faceDistance (result rep) = distanceThreshold CONFIG \<and>
      \<not> isMatch (result rep) \<and> status (result rep) = ''REJECTED'' \<and> \<not> isMatch v2"
    by auto
  from near edge run1 run2 v1 v2 show ?thesis
    by blast
qed

subsection \<open>Properties of the confidence\<close>

text \<open>
  Claim C2 says that for a face distance \<open>d \<ge> 0\<close> and a threshold \<open>t > 0\<close> the confidence in
  the report equals \<open>max 0 (1 - d / t)\<close>, lies between 0 and 1, is 0 whenever \<open>d \<ge> t\<close>, and
  is 1 if and only if \<open>d = 0\<close>. The quotient and the difference are rounded to doubles. With
  the threshold \<^verbatim>\<open>0.5\<close> and the distance \<open>2\<^sup>-\<^sup>6\<^sup>0\<close>, the quotient is \<open>2\<^sup>-\<^sup>5\<^sup>9\<close> and \<open>1 - 2\<^sup>-\<^sup>5\<^sup>9\<close> is
  rounded to \<open>1\<close>: the confidence is \<open>1\<close> although the distance is not \<open>0\<close>, and it is not
  \<open>1 - d / t\<close>.
\<close>

theorem confidence_one_counterexample:
  "(0::real) \<le> 1 / 2 ^ 60 \<and>
   0 < distanceThreshold (CONFIG \<lparr> distanceThreshold := 1 / 2 \<rparr>) \<and>
   confidence (result (generateVerificationReport (CONFIG \<lparr> distanceThreshold := 1 / 2 \<rparr>)
       (sample_env (\<lambda>p. True) None (\<lambda>a b. None))
       (sample_data ''a.jpg'' ''face_reference.jpg'') (sample_data ''b.jpg'' ''face_query.jpg'')
       (1 / 2 ^ 60) True ''out'')) = 1 \<and>
   (1 / 2 ^ 60 :: real) \<noteq> 0 \<and>
   max 0 (1 - (1 / 2 ^ 60) / distanceThreshold (CONFIG \<lparr> distanceThreshold := 1 / 2 \<rparr>))
     \<noteq> (1::real)"
proof -
  have e: "(1 / 2 ^ 60) / (1 / 2) = (1 / 2 ^ 59 :: real)"
    by simp
  have "max 0 (fl (1 - fl ((1 / 2 ^ 60) / (1 / 2)))) = max 0 (fl (1 - fl (1 / 2 ^ 59)))"
    by (simp only: e)
  also have "\<dots> = max 0 (fl (1 - 1 / 2 ^ 59))"
    by (simp only: fl_pow59)
  also have "\<dots> = max 0 1"
    by (simp only: fl_rounds_to_one)
  finally have c: "max 0 (fl (1 - fl ((1 / 2 ^ 60) / (1 / 2)))) = 1"
    by simp
  have t: "distanceThreshold (CONFIG \<lparr> distanceThreshold := 1 / 2 \<rparr>) = 1 / 2"
    by simp
  show ?thesis
    unfolding generated_result t c by simp
qed

text \<open>
  Claim C2, amended. For a face distance \<open>d \<ge> 0\<close> and a threshold \<open>t > 0\<close>, the confidence in
  the report is \<open>max 0 (1 - d / t)\<close> as double arithmetic computes it, the quotient and the
  difference each rounded to the nearest double; it lies between 0 and 1, it is 0
  whenever \<open>d \<ge> t\<close>, it is 1 when \<open>d = 0\<close>, and it is 1 only when \<open>d / t \<le> 2\<^sup>-\<^sup>5\<^sup>3\<close>.
\<close>

theorem confidence_bounds:
  assumes "0 \<le> d" and "0 < distanceThreshold cfg"
  shows "confidence (result (generateVerificationReport cfg env rd qd d m out))
           = max 0 (fl (1 - fl (d / distanceThreshold cfg))) \<and>
         0 \<le> confidence (result (generateVerificationReport cfg env rd qd d m out)) \<and>
         confidence (result (generateVerificationReport cfg env rd qd d m out)) \<le> 1 \<and>
         (distanceThreshold cfg \<le> d \<longrightarrow>
            confidence (result (generateVerificationReport cfg env rd qd d m out)) = 0) \<and>
         (d = 0 \<longrightarrow>
            confidence (result (generateVerificationReport cfg env rd qd d m out)) = 1) \<and>
         (confidence (result (generateVerificationReport cfg env rd qd d m out)) = 1 \<longrightarrow>
            d / distanceThreshold cfg \<le> 1 / 2 ^ 53)"
proof -
  let ?t = "distanceThreshold cfg"
  let ?c = "max 0 (fl (1 - fl (d / ?t)))"
  let ?q = "fl (d / ?t)"
  have q0: "0 \<le> ?q"
    using assms by (intro fl_nonneg) simp
  have upper: "fl (1 - ?q) \<le> 1"
  proof (cases "0 < 1 - ?q")
    case True
    then have "fl (1 - ?q) \<le> fl 1"
      using q0 by (intro fl_mono_pos) simp_all
    then show ?thesis
      by (simp add: fl_one)
  next
    case False
    then have "fl (1 - ?q) \<le> 0"
      by (intro fl_nonpos) simp
    then show ?thesis
      by simp
  qed
  have zero: "?c = 0" if "?t \<le> d"
  proof -
    have "1 \<le> d / ?t"
      using that assms by (simp add: le_divide_eq)
    then have "fl 1 \<le> ?q"
      by (intro fl_mono_pos) simp_all
    then have "fl (1 - ?q) \<le> 0"
      by (intro fl_nonpos) (simp add: fl_one)
    then show ?thesis
      by simp
  qed
  have one: "?c = 1" if "d = 0"
    using that by (simp add: fl_zero fl_one)
  have only: "d / ?t \<le> 1 / 2 ^ 53" if c: "?c = 1"
  proof (rule ccontr)
    assume "\<not> d / ?t \<le> 1 / 2 ^ 53"
    then have "fl (1 / 2 ^ 53) \<le> ?q"
      by (intro fl_mono_pos) simp_all
    then have p: "1 / 2 ^ 53 \<le> ?q"
      by (simp only: fl_pow53)
    have "fl (1 - ?q) < 1"
    proof (cases "0 < 1 - ?q")
      case True
      then have "fl (1 - ?q) \<le> fl (1 - 1 / 2 ^ 53)"
        using p by (intro fl_mono_pos) simp_all
      then have "fl (1 - ?q) \<le> 1 - 1 / 2 ^ 53"
        by (simp only: fl_below_one)
      moreover have "(0::real) < 1 / 2 ^ 53"
        by simp
      ultimately show ?thesis
        by linarith
    next
      case False
      then have "fl (1 - ?q) \<le> 0"
        by (intro fl_nonpos) simp
      then show ?thesis
        by simp
    qed
    with c show False
      by (simp add: max_def split: if_splits)
  qed
  have c: "confidence (result (generateVerificationReport cfg env rd qd d m out)) = ?c"
    by (simp add: generated_result)
  from upper zero one only show ?thesis
    unfolding c by auto
qed

theorem confidence_bounds_witness:
  "(0::real) \<le> 6 / 10 \<and> 0 < distanceThreshold CONFIG \<and> distanceThreshold CONFIG \<le> 6 / 10 \<and>
   confidence (result (generateVerificationReport CONFIG
       (sample_env (\<lambda>p. True) None (\<lambda>a b. None))
       (sample_data ''a.jpg'' ''face_reference.jpg'') (sample_data ''b.jpg'' ''face_query.jpg'')
       (6 / 10) False ''out'')) = 0 \<and>
   confidence (result (generateVerificationReport CONFIG
       (sample_env (\<lambda>p. True) None (\<lambda>a b. None))
       (sample_data ''a.jpg'' ''face_reference.jpg'') (sample_data ''b.jpg'' ''face_query.jpg'')
       0 True ''out'')) = 1"
proof -
  have d: "(0::real) \<le> 6 / 10" "(0::real) \<le> 0"
    by simp_all
  have t: "0 < distanceThreshold CONFIG" "distanceThreshold CONFIG \<le> 6 / 10"
    by (simp_all add: CONFIG_values)
  from confidence_bounds [OF d(1) t(1)] confidence_bounds [OF d(2) t(1)] d t show ?thesis
    by blast
qed

subsection \<open>Properties of the distance\<close>

lemma sum_list_zip_nth:
  assumes "length a = length b"
  shows "(\<Sum>(p, q) \<leftarrow> zip a b. f p q) = (\<Sum>i<length a. f (a ! i) (b ! i))"
proof -
  have "(\<Sum>(p, q) \<leftarrow> zip a b. f p q) = (\<Sum>i = 0..<length (zip a b). (case zip a b ! i of (p, q) \<Rightarrow> f p q))"
    by (simp add: sum_list_sum_nth)
  also have "\<dots> = (\<Sum>i = 0..<length a. f (a ! i) (b ! i))"
    using assms by (intro sum.cong) simp_all
  finally show ?thesis
    by (simp add: atLeast0LessThan)
qed

lemma sum_list_squares_nonneg: "0 \<le> (\<Sum>(p, q) \<leftarrow> zip a b. (p - q)\<^sup>2)" for a b :: "real list"
  by (intro sum_list_nonneg) auto

lemma sum_list_squares_commute:
  "(\<Sum>(p, q) \<leftarrow> zip a b. (p - q)\<^sup>2) = (\<Sum>(p, q) \<leftarrow> zip b a. (p - q)\<^sup>2)" for a b :: "real list"
proof (induction a arbitrary: b)
  case Nil
  show ?case by simp
next
  case (Cons h t)
  show ?case
  proof (cases b)
    case Nil
    then show ?thesis by simp
  next
    case (Cons k u)
    with Cons.IH [of u] show ?thesis
      by (simp add: power2_commute)
  qed
qed

lemma sum_list_squares_same: "(\<Sum>(p, q) \<leftarrow> zip a a. (p - q)\<^sup>2) = 0" for a :: "real list"
  by (induction a) simp_all

text \<open>
  Claim C8. For descriptor vectors \<open>a\<close> and \<open>b\<close> of equal dimension, the face distance is the
  Euclidean distance \<open>sqrt (\<Sum>i. (a\<^sub>i - b\<^sub>i)\<^sup>2)\<close>; it is the same for \<open>(a, b)\<close> and \<open>(b, a)\<close>, it is
  never negative, and it is 0 when \<open>a = b\<close>. The threshold plays no part in it.
\<close>

theorem euclidean_distance_properties:
  assumes "length a = length b"
  shows "euclideanDistance a b = Some (sqrt (\<Sum>i<length a. (a ! i - b ! i)\<^sup>2)) \<and>
         euclideanDistance b a = euclideanDistance a b \<and>
         (\<exists>d. euclideanDistance a b = Some d \<and> 0 \<le> d) \<and>
         euclideanDistance a a = Some 0 \<and>
         (a = b \<longrightarrow> euclideanDistance a b = Some 0)"
proof -
  have f: "euclideanDistance a b = Some (sqrt (\<Sum>i<length a. (a ! i - b ! i)\<^sup>2))"
    using assms by (simp add: euclideanDistance_def sum_list_zip_nth)
  have s: "euclideanDistance b a = euclideanDistance a b"
    using assms sum_list_squares_commute [of a b] by (simp add: euclideanDistance_def)
  have n: "\<exists>d. euclideanDistance a b = Some d \<and> 0 \<le> d"
    using assms sum_list_squares_nonneg [of a b] by (simp add: euclideanDistance_def)
  have z: "euclideanDistance c c = Some 0" for c
    by (simp add: euclideanDistance_def sum_list_squares_same)
  from f s n z show ?thesis
    by auto
qed

theorem euclidean_distance_properties_witness:
  "length [3, 0 :: real] = length [0, 4 :: real] \<and>
   euclideanDistance [3, 0] [0, 4] = Some 5 \<and>
   euclideanDistance [0, 4] [3, 0] = Some 5 \<and>
   euclideanDistance [3, 0] [3, 0] = Some 0"
proof -
  have l: "length [3, 0 :: real] = length [0, 4 :: real]"
    by simp
  have r: "sqrt 25 = 5"
    using real_sqrt_abs [of 5] by simp
  have v: "euclideanDistance [3, 0] [0, 4] = Some 5"
    by (simp add: euclideanDistance_def r)
  from euclidean_distance_properties [OF l] v show ?thesis
    by simp
qed

end
